theory Spec2Isabelle
  imports Main "HOL-Library.Char_ord" "HOL-Library.List_Lexorder"
begin

section \<open>The world the data sources act on\<close>

text \<open>
  The data-source classes of \<^verbatim>\<open>wags_tails\<close> read and write files of one data
  directory, read the process environment, talk to remote servers through
  \<^verbatim>\<open>requests\<close> and write to a logger. Each of these effects is a field of the
  record \<open>world\<close>; a method of the source becomes a function from the world to a result
  and the world after the call. An exception is the \<open>Inl\<close> of the result; the world
  returned with it holds the effects that happened before the raise.
\<close>

datatype error =
    ValueError | FileNotFoundError | RemoteDataError
  | KeyError | IndexError | TypeError | JSONDecodeError
  | HTTPError | ConnectionError | BadZipFile
  | ParseError | NetworkError

text \<open>
  A path is either a file of the data directory, named by its file name
  (\<^verbatim>\<open>self.data_dir / name\<close>), or the temporary file a download is written to.
\<close>

datatype path = DataFile string | TempFile

text \<open>
  The bytes of a file, seen the way the code reads them: as a ZIP archive with its
  member list (name and bytes of each member, in the order of \<^verbatim>\<open>filelist\<close>) or as
  data that is no archive.
\<close>

datatype blob = Data string | Archive "(string \<times> string) list"

text \<open>
  A JSON document as \<^verbatim>\<open>r.json()\<close> returns it, that is, as a Python value:
  \<open>None\<close>, a boolean, an integer, a float (given by the text Python prints for
  it), a string, a list, or a dictionary (given by its items, in order).
\<close>

datatype json =
    JNull | JBool bool | JInt int | JFloat string | JString string
  | JArray "json list" | JObject "(string \<times> json) list"

text \<open>
  A response of \<^verbatim>\<open>requests.get\<close>: its status code and the three views of its body
  that the code uses (\<^verbatim>\<open>r.text\<close>, \<^verbatim>\<open>r.json()\<close>, where \<open>None\<close> is a body that
  is not JSON, and the raw content a download writes to disk).
\<close>

record response =
  status :: nat
  text_of :: string
  json_of :: "json option"
  content :: blob

datatype log_level = DEBUG | WARNING | ERROR

text \<open>
  \<open>fs\<close> lists the files in the order a directory listing yields them; \<open>web\<close> is the
  behaviour of the remote servers (\<open>None\<close>: the request fails in transport);
  \<open>net\<close> records every URL requested, in order; \<open>logs\<close> records every call to the
  logger with its level and the fixed part of its message.
\<close>

record world =
  fs :: "(path \<times> blob) list"
  environ :: "(string \<times> string) list"
  web :: "string \<Rightarrow> response option"
  net :: "string list"
  logs :: "(log_level \<times> string) list"

definition exists_file :: "path \<Rightarrow> world \<Rightarrow> bool" where
  "exists_file p w = (p \<in> fst ` set (fs w))"

definition write_file :: "path \<Rightarrow> blob \<Rightarrow> world \<Rightarrow> world" where
  "write_file p b w = w\<lparr>fs := filter (\<lambda>e. fst e \<noteq> p) (fs w) @ [(p, b)]\<rparr>"

definition remove_file :: "path \<Rightarrow> world \<Rightarrow> world" where
  "remove_file p w = w\<lparr>fs := filter (\<lambda>e. fst e \<noteq> p) (fs w)\<rparr>"

definition log_msg :: "log_level \<Rightarrow> string \<Rightarrow> world \<Rightarrow> world" where
  "log_msg l m w = w\<lparr>logs := logs w @ [(l, m)]\<rparr>"

definition requests_get :: "string \<Rightarrow> world \<Rightarrow> response option \<times> world" where
  "requests_get url w = (web w url, w\<lparr>net := net w @ [url]\<rparr>)"

text \<open>\<^verbatim>\<open>raise_for_status\<close> raises for the status codes 400 to 599.\<close>

definition bad_status :: "response \<Rightarrow> bool" where
  "bad_status r = (400 \<le> status r \<and> status r < 600)"

section \<open>Python's library functions\<close>

subsection \<open>Strings\<close>

text \<open>
  A string is a list of 8-bit characters. The digits, the letters and the white
  space of the library functions below are those of ASCII, which is what the file
  names, version strings and pages of the sources are made of.
\<close>

definition is_digit :: "char \<Rightarrow> bool" where
  "is_digit c = (c \<in> set ''0123456789'')"

definition digit_val :: "char \<Rightarrow> nat" where
  "digit_val c = of_char c - 48"

definition digit_char :: "nat \<Rightarrow> char" where
  "digit_char n = char_of (48 + n)"

text \<open>\<^verbatim>\<open>str(n)\<close> for an integer: its decimal digits, with no filling.\<close>

fun show_nat :: "nat \<Rightarrow> string" where
  "show_nat n = (if n < 10 then [digit_char n] else show_nat (n div 10) @ [digit_char (n mod 10)])"

declare show_nat.simps [simp del]

definition show_int :: "int \<Rightarrow> string" where
  "show_int i = (if i < 0 then CHR ''-'' # show_nat (nat (- i)) else show_nat (nat i))"

text \<open>\<^verbatim>\<open>sep.join(parts)\<close>.\<close>

fun join :: "string \<Rightarrow> string list \<Rightarrow> string" where
  "join sep [] = []"
| "join sep [x] = x"
| "join sep (x # y # rest) = x @ sep @ join sep (y # rest)"

text \<open>\<^verbatim>\<open>s.split(sep)\<close> for a separator of one character.\<close>

fun split_on :: "char \<Rightarrow> string \<Rightarrow> string list" where
  "split_on sep [] = [[]]"
| "split_on sep (c # cs) =
     (if c = sep then [] # split_on sep cs
      else (case split_on sep cs of
              [] \<Rightarrow> [[c]]
            | p # ps \<Rightarrow> (c # p) # ps))"

text \<open>
  \<^verbatim>\<open>int(s)\<close> on a piece of a version string: the pieces are cut from a match of
  \<^verbatim>\<open>[\d\.]+\<close> at its dots, so they hold digits only; the empty piece raises.
\<close>

definition dec_val :: "string \<Rightarrow> nat" where
  "dec_val s = foldl (\<lambda>n c. 10 * n + digit_val c) 0 s"

definition py_int :: "string \<Rightarrow> error + int" where
  "py_int s = (if s \<noteq> [] \<and> list_all is_digit s then Inr (int (dec_val s)) else Inl ValueError)"

fun starts_with :: "string \<Rightarrow> string \<Rightarrow> bool" where
  "starts_with [] s = True"
| "starts_with (p # ps) [] = False"
| "starts_with (p # ps) (c # cs) = (p = c \<and> starts_with ps cs)"

text \<open>\<^verbatim>\<open>needle in s\<close> for strings.\<close>

fun contains :: "string \<Rightarrow> string \<Rightarrow> bool" where
  "contains needle [] = (needle = [])"
| "contains needle (c # cs) = (starts_with needle (c # cs) \<or> contains needle cs)"

text \<open>
  \<^verbatim>\<open>s.strip()\<close>: the white space of the ASCII range (tab to carriage return, the
  four separators 28 to 31 and the blank).
\<close>

definition is_space :: "char \<Rightarrow> bool" where
  "is_space c = (let n = (of_char c :: nat) in (9 \<le> n \<and> n \<le> 13) \<or> (28 \<le> n \<and> n \<le> 32))"

definition strip :: "string \<Rightarrow> string" where
  "strip s = rev (dropWhile is_space (rev (dropWhile is_space s)))"

subsection \<open>File name patterns\<close>

text \<open>
  \<^verbatim>\<open>Path.glob\<close> on a pattern of one path component: \<^verbatim>\<open>*\<close> stands for any run
  of characters, \<^verbatim>\<open>?\<close> for one character, every other character for itself (the
  patterns of the sources hold no bracket).
\<close>

fun glob_match :: "string \<Rightarrow> string \<Rightarrow> bool" where
  "glob_match [] s = (s = [])"
| "glob_match (p # ps) [] = (p = CHR ''*'' \<and> glob_match ps [])"
| "glob_match (p # ps) (c # cs) =
     (if p = CHR ''*'' then glob_match ps (c # cs) \<or> glob_match (p # ps) cs
      else (p = CHR ''?'' \<or> p = c) \<and> glob_match ps cs)"

text \<open>The names of the files of the data directory that match, in listing order.\<close>

definition data_files :: "world \<Rightarrow> string list" where
  "data_files w = concat (map (\<lambda>e. case fst e of DataFile n \<Rightarrow> [n] | TempFile \<Rightarrow> []) (fs w))"

definition glob :: "string \<Rightarrow> world \<Rightarrow> string list" where
  "glob pat w = filter (glob_match pat) (data_files w)"

subsection \<open>Regular expressions\<close>

text \<open>
  The fragment of \<^verbatim>\<open>re\<close> the sources use: a pattern is a sequence of items, each a
  single character set, a character set repeated exactly \<open>n\<close> times, or one repeated
  greedily (\<^verbatim>\<open>+\<close>, \<^verbatim>\<open>*\<close>). The sets are a literal character, \<^verbatim>\<open>.\<close> (all but
  the newline), \<^verbatim>\<open>\d\<close> and \<^verbatim>\<open>[\d\.]\<close>.
\<close>

datatype rx_set = Lit char | AnyChar | Digit | DigitOrDot

datatype rx_item = One rx_set | Times nat rx_set | Plus rx_set | Star rx_set

fun in_set :: "rx_set \<Rightarrow> char \<Rightarrow> bool" where
  "in_set (Lit a) c = (c = a)"
| "in_set AnyChar c = (c \<noteq> CHR 0x0A)"
| "in_set Digit c = is_digit c"
| "in_set DigitOrDot c = (is_digit c \<or> c = CHR ''.'')"

definition lits :: "string \<Rightarrow> rx_item list" where
  "lits s = map (\<lambda>c. One (Lit c)) s"

text \<open>
  \<open>rx_match p s\<close> lists what is left of \<open>s\<close> after each way of matching \<open>p\<close> at the
  start of \<open>s\<close>, in the order the backtracking matcher tries them: a greedy repetition
  takes the longest run first.
\<close>

fun rx_match :: "rx_item list \<Rightarrow> string \<Rightarrow> string list" where
  "rx_match [] s = [s]"
| "rx_match (One a # p) s =
     (case s of [] \<Rightarrow> [] | c # cs \<Rightarrow> if in_set a c then rx_match p cs else [])"
| "rx_match (Times n a # p) s =
     (if n \<le> length s \<and> list_all (in_set a) (take n s) then rx_match p (drop n s) else [])"
| "rx_match (Plus a # p) s =
     concat (map (\<lambda>k. rx_match p (drop k s)) (rev [1 ..< Suc (length (takeWhile (in_set a) s))]))"
| "rx_match (Star a # p) s =
     concat (map (\<lambda>k. rx_match p (drop k s)) (rev [0 ..< Suc (length (takeWhile (in_set a) s))]))"

text \<open>
  A pattern with one group, \<^verbatim>\<open>pre(grp)post\<close>, matched at the start of \<open>s\<close>: the text
  of the group in the first successful way of matching, and what is left of \<open>s\<close> after
  the match.
\<close>

definition rx_group :: "rx_item list \<Rightarrow> rx_item list \<Rightarrow> rx_item list \<Rightarrow> string \<Rightarrow> (string \<times> string) option" where
  "rx_group pre grp post s =
     (case concat (map (\<lambda>r1. concat (map (\<lambda>r2. map (\<lambda>r3. (take (length r1 - length r2) r1, r3))
                                                     (rx_match post r2))
                                          (rx_match grp r1)))
                       (rx_match pre s)) of
        [] \<Rightarrow> None
      | m # _ \<Rightarrow> Some m)"

text \<open>
  \<^verbatim>\<open>re.findall\<close> for such a pattern: the group texts of the matches found from left
  to right, each search starting where the last match ended. \<open>skip\<close> counts the
  characters of the last match still to pass.
\<close>

fun findall_from :: "rx_item list \<Rightarrow> rx_item list \<Rightarrow> rx_item list \<Rightarrow> nat \<Rightarrow> string \<Rightarrow> string list" where
  "findall_from pre grp post skip [] =
     (case rx_group pre grp post [] of None \<Rightarrow> [] | Some (g, rest) \<Rightarrow> [g])"
| "findall_from pre grp post (Suc k) (c # cs) = findall_from pre grp post k cs"
| "findall_from pre grp post 0 (c # cs) =
     (case rx_group pre grp post (c # cs) of
        None \<Rightarrow> findall_from pre grp post 0 cs
      | Some (g, rest) \<Rightarrow> g # findall_from pre grp post (length cs - length rest) cs)"

definition findall :: "rx_item list \<Rightarrow> rx_item list \<Rightarrow> rx_item list \<Rightarrow> string \<Rightarrow> string list" where
  "findall pre grp post s = findall_from pre grp post 0 s"

subsection \<open>Printing values\<close>

text \<open>
  \<^verbatim>\<open>repr\<close> of a string: in single quotes, or in double quotes when the string has a
  single quote and no double quote; the quote, the backslash and the control
  characters are escaped.
\<close>

definition repr_quote :: "string \<Rightarrow> char" where
  "repr_quote s = (if CHR 0x27 \<in> set s \<and> CHR 0x22 \<notin> set s then CHR 0x22 else CHR 0x27)"

definition hex_digit :: "nat \<Rightarrow> char" where
  "hex_digit n = (if n < 10 then char_of (48 + n) else char_of (87 + n))"

definition repr_char :: "char \<Rightarrow> char \<Rightarrow> string" where
  "repr_char q c =
     (let n = (of_char c :: nat) in
      if c = q \<or> c = CHR 0x5C then [CHR 0x5C, c]
      else if c = CHR 0x09 then [CHR 0x5C, CHR ''t'']
      else if c = CHR 0x0A then [CHR 0x5C, CHR ''n'']
      else if c = CHR 0x0D then [CHR 0x5C, CHR ''r'']
      else if n < 32 \<or> n = 127 then [CHR 0x5C, CHR ''x'', hex_digit (n div 16), hex_digit (n mod 16)]
      else [c])"

definition repr_str :: "string \<Rightarrow> string" where
  "repr_str s = (let q = repr_quote s in q # concat (map (repr_char q) s) @ [q])"

text \<open>
  \<^verbatim>\<open>repr\<close> of a value, and \<^verbatim>\<open>str\<close>, which is what an f-string puts for a value:
  they differ on strings only.
\<close>

fun py_repr :: "json \<Rightarrow> string" where
  "py_repr JNull = ''None''"
| "py_repr (JBool b) = (if b then ''True'' else ''False'')"
| "py_repr (JInt i) = show_int i"
| "py_repr (JFloat r) = r"
| "py_repr (JString s) = repr_str s"
| "py_repr (JArray xs) = ''['' @ join '', '' (map py_repr xs) @ '']''"
| "py_repr (JObject kvs) =
     ''{'' @ join '', '' (map (\<lambda>kv. repr_str (fst kv) @ '': '' @ py_repr (snd kv)) kvs) @ ''}''"

definition py_str :: "json \<Rightarrow> string" where
  "py_str j = (case j of JString s \<Rightarrow> s | _ \<Rightarrow> py_repr j)"

section \<open>Collaborators of the sources\<close>

text \<open>
  Modelled from the spec: \<^verbatim>\<open>parse_file_version\<close> of the versioning utilities, which
  the sources import and call but which is not among them. The spec (4.1): parsing
  a file name that does not match the expected pattern fails with a parse error;
  otherwise the result is the version embedded in the name. The pattern, a regular
  expression with one group in the sources, is given by its three parts and matched
  at the start of the name.
\<close>

definition parse_file_version :: "string \<Rightarrow> rx_item list \<times> rx_item list \<times> rx_item list \<Rightarrow> error + string" where
  "parse_file_version name pat =
     (case pat of (pre, grp, post) \<Rightarrow>
        (case rx_group pre grp post name of
           None \<Rightarrow> Inl ParseError
         | Some (v, rest) \<Rightarrow> Inr v))"

text \<open>
  A post-processing callback of a download (\<^verbatim>\<open>handler\<close>): given the temporary file
  and the destination it produces the final file or raises.
\<close>

type_synonym handler = "path \<Rightarrow> path \<Rightarrow> world \<Rightarrow> (error + unit) \<times> world"

text \<open>
  Modelled from the spec: \<^verbatim>\<open>download_http\<close> of the download utilities (and the
  method \<^verbatim>\<open>_http_download\<close> of the base class, which is the same fetch with no
  handler); neither is among the sources. The spec (4.3): the fetch writes to a
  temporary path first; a transport failure or a non-success status fails with a
  network error and leaves the destination as it was; on full receipt the file is
  moved to the destination, or, when a post-processing step is given, that step is
  called with the temporary file and the destination and its failure is the failure
  of the fetch. No retry is made.
\<close>

definition download_http :: "string \<Rightarrow> path \<Rightarrow> handler option \<Rightarrow> world \<Rightarrow> (error + unit) \<times> world" where
  "download_http url outfile h w =
     (case requests_get url w of (r, w1) \<Rightarrow>
        (case r of
           None \<Rightarrow> (Inl NetworkError, w1)
         | Some resp \<Rightarrow>
             if bad_status resp then (Inl NetworkError, w1)
             else (let w2 = write_file TempFile (content resp) w1 in
                   case h of
                     None \<Rightarrow> (Inr (), write_file outfile (content resp) (remove_file TempFile w2))
                   | Some handle \<Rightarrow> handle TempFile outfile w2)))"

section \<open>DrugBank\<close>

definition drugbank_releases_url :: string where
  "drugbank_releases_url = ''https://go.drugbank.com/releases.json''"

text \<open>\<^verbatim>\<open>r.json()[0]\<close>: the subscript \<open>0\<close> on each kind of JSON value.\<close>

fun subscript_0 :: "json \<Rightarrow> error + json" where
  "subscript_0 (JArray []) = Inl IndexError"
| "subscript_0 (JArray (x # xs)) = Inr x"
| "subscript_0 (JObject kvs) = Inl KeyError"
| "subscript_0 (JString []) = Inl IndexError"
| "subscript_0 (JString (c # cs)) = Inr (JString [c])"
| "subscript_0 JNull = Inl TypeError"
| "subscript_0 (JBool b) = Inl TypeError"
| "subscript_0 (JInt i) = Inl TypeError"
| "subscript_0 (JFloat r) = Inl TypeError"

text \<open>
  \<^verbatim>\<open>latest["version"]\<close>: a string subscript. Only a dictionary takes one; a list, a
  string and the other values raise \<open>TypeError\<close>.
\<close>

fun subscript_key :: "json \<Rightarrow> string \<Rightarrow> error + json" where
  "subscript_key (JObject kvs) k = (case map_of kvs k of None \<Rightarrow> Inl KeyError | Some v \<Rightarrow> Inr v)"
| "subscript_key (JArray xs) k = Inl TypeError"
| "subscript_key (JString s) k = Inl TypeError"
| "subscript_key JNull k = Inl TypeError"
| "subscript_key (JBool b) k = Inl TypeError"
| "subscript_key (JInt i) k = Inl TypeError"
| "subscript_key (JFloat r) k = Inl TypeError"

text \<open>
  The body of the \<^verbatim>\<open>try\<close> of \<^verbatim>\<open>_get_latest_version\<close>, then its
  \<^verbatim>\<open>except (KeyError, IndexError)\<close>: these two become \<open>RemoteDataError\<close>, every other
  exception passes.
\<close>

definition drugbank_parse_release :: "response \<Rightarrow> error + json \<times> json" where
  "drugbank_parse_release r =
     (case json_of r of
        None \<Rightarrow> Inl JSONDecodeError
      | Some j \<Rightarrow>
          (case subscript_0 j of
             Inl e \<Rightarrow> Inl e
           | Inr latest \<Rightarrow>
               (case subscript_key latest ''version'' of
                  Inl e \<Rightarrow> Inl e
                | Inr v \<Rightarrow>
                    (case subscript_key latest ''url'' of
                       Inl e \<Rightarrow> Inl e
                     | Inr u \<Rightarrow> Inr (v, u)))))"

definition drugbank_get_latest_version :: "world \<Rightarrow> (error + json \<times> json) \<times> world" where
  "drugbank_get_latest_version w =
     (case requests_get drugbank_releases_url w of (r, w1) \<Rightarrow>
        (case r of
           None \<Rightarrow> (Inl ConnectionError, w1)
         | Some resp \<Rightarrow>
             if bad_status resp then (Inl HTTPError, w1)
             else (case drugbank_parse_release resp of
                     Inl e \<Rightarrow> (if e = KeyError \<or> e = IndexError then Inl RemoteDataError else Inl e, w1)
                   | Inr vu \<Rightarrow> (Inr vu, w1))))"

text \<open>The pattern \<^verbatim>\<open>drugbank_([\d\.]+).csv\<close>.\<close>

definition drugbank_pattern :: "rx_item list \<times> rx_item list \<times> rx_item list" where
  "drugbank_pattern = (lits ''drugbank_'', [Plus DigitOrDot], One AnyChar # lits ''csv'')"

text \<open>\<^verbatim>\<open>[int(digits) for digits in version.split(".")]\<close>: the first piece that fails raises.\<close>

fun int_all :: "string list \<Rightarrow> error + int list" where
  "int_all [] = Inr []"
| "int_all (d # ds) =
     (case py_int d of
        Inl e \<Rightarrow> Inl e
      | Inr n \<Rightarrow> (case int_all ds of Inl e \<Rightarrow> Inl e | Inr ns \<Rightarrow> Inr (n # ns)))"

definition formatted_version :: "string \<Rightarrow> error + int list" where
  "formatted_version version = int_all (split_on CHR ''.'' version)"

text \<open>
  The loop of \<^verbatim>\<open>_get_latest_local_file\<close> over the files of the glob: it builds the
  list of triples of file, version and formatted version, and stops at the first file
  whose version does not parse.
\<close>

fun file_version_pairs :: "string list \<Rightarrow> error + (string \<times> string \<times> int list) list" where
  "file_version_pairs [] = Inr []"
| "file_version_pairs (file # rest) =
     (case parse_file_version file drugbank_pattern of
        Inl e \<Rightarrow> Inl e
      | Inr version \<Rightarrow>
          (case formatted_version version of
             Inl e \<Rightarrow> Inl e
           | Inr fv \<Rightarrow>
               (case file_version_pairs rest of
                  Inl e \<Rightarrow> Inl e
                | Inr ps \<Rightarrow> Inr ((file, version, fv) # ps))))"

text \<open>
  \<^verbatim>\<open>sorted(file_version_pairs, key=lambda p: p[2])\<close> is a stable sort on the lists of
  integers, which Python compares lexicographically, a proper prefix being smaller;
  \<^verbatim>\<open>files[-1]\<close> is its last element.
\<close>

definition drugbank_get_latest_local_file :: "string \<Rightarrow> world \<Rightarrow> (error + path \<times> string) \<times> world" where
  "drugbank_get_latest_local_file pat w =
     (let w1 = log_msg DEBUG ''Getting local match against pattern'' w in
      case file_version_pairs (glob pat w1) of
        Inl e \<Rightarrow> (Inl e, w1)
      | Inr pairs \<Rightarrow>
          (let files = sort_key (\<lambda>p. snd (snd p)) pairs in
           if length files < 1 then (Inl FileNotFoundError, w1)
           else (let latest = last files in
                 (Inr (DataFile (fst latest), fst (snd latest)),
                  log_msg DEBUG ''Returning most recent locally-available file'' w1))))"

text \<open>
  \<^verbatim>\<open>_download_data\<close>: the fetch with the ZIP handler of the download utilities, which
  is not among the sources and is a parameter here.
\<close>

definition drugbank_download_data :: "handler \<Rightarrow> string \<Rightarrow> path \<Rightarrow> world \<Rightarrow> (error + unit) \<times> world" where
  "drugbank_download_data handle_zip url outfile w = download_http url outfile (Some handle_zip) w"

text \<open>
  \<^verbatim>\<open>get_latest\<close>. The version it returns is the string of the local scan, or the
  value the release list holds, whatever its kind; the f-strings that build the URL
  and the file name put \<^verbatim>\<open>str\<close> of the values.
\<close>

definition drugbank_get_latest :: "handler \<Rightarrow> bool \<Rightarrow> bool \<Rightarrow> world \<Rightarrow> (error + path \<times> json) \<times> world" where
  "drugbank_get_latest handle_zip from_local force_refresh w =
     (if force_refresh \<and> from_local then (Inl ValueError, w)
      else if from_local then
        (case drugbank_get_latest_local_file ''drugbank_*.csv'' w of
           (Inl e, w1) \<Rightarrow> (Inl e, w1)
         | (Inr (file_path, version), w1) \<Rightarrow> (Inr (file_path, JString version), w1))
      else (case drugbank_get_latest_version w of
              (Inl e, w1) \<Rightarrow> (Inl e, w1)
            | (Inr (latest_version, latest_url_base), w1) \<Rightarrow>
                (let latest_url = py_str latest_url_base @ ''/downloads/all-drugbank-vocabulary'';
                     latest_file = DataFile (''drugbank_'' @ py_str latest_version @ ''.csv'')
                 in if \<not> force_refresh \<and> exists_file latest_file w1
                    then (Inr (latest_file, latest_version),
                          log_msg DEBUG ''Found existing file matching latest version'' w1)
                    else (case drugbank_download_data handle_zip latest_url latest_file w1 of
                            (Inl e, w2) \<Rightarrow> (Inl e, w2)
                          | (Inr u, w2) \<Rightarrow> (Inr (latest_file, latest_version), w2)))))"

section \<open>The scan of the cache\<close>

text \<open>
  Modelled from the spec: the scan of the cache (\<^verbatim>\<open>LocalCacheScanner.latest\<close>, the
  method \<^verbatim>\<open>_get_latest_local_file\<close> of the base class), which is not among the
  sources. The spec (4.2): enumerate the files matching the glob; parse the version
  embedded in each, skipping a name that does not match; sort the candidates by the
  order of versions, which for dotted versions is that of their integers; return the
  maximum; fail with the not-found error when there is no candidate.
\<close>

fun candidates :: "rx_item list \<times> rx_item list \<times> rx_item list \<Rightarrow> string list \<Rightarrow> (string \<times> int list) list" where
  "candidates version_pattern [] = []"
| "candidates version_pattern (file # rest) =
     (case parse_file_version file version_pattern of
        Inl e \<Rightarrow> candidates version_pattern rest
      | Inr version \<Rightarrow>
          (case formatted_version version of
             Inl e \<Rightarrow> candidates version_pattern rest
           | Inr k \<Rightarrow> (file, k) # candidates version_pattern rest))"

definition LocalCacheScanner_latest ::
  "rx_item list \<times> rx_item list \<times> rx_item list \<Rightarrow> string \<Rightarrow> world \<Rightarrow> (error + string) \<times> world" where
  "LocalCacheScanner_latest version_pattern glob_pattern w =
     (case sort_key snd (candidates version_pattern (glob glob_pattern w)) of
        [] \<Rightarrow> (Inl FileNotFoundError, w)
      | c # cs \<Rightarrow> (Inr (fst (last (c # cs))), w))"

section \<open>Guide to Pharmacology\<close>

definition gtop_home_url :: string where
  "gtop_home_url = ''https://www.guidetopharmacology.org/''"

definition gtop_ligands_url :: string where
  "gtop_ligands_url = ''https://www.guidetopharmacology.org/DATA/ligands.tsv''"

definition gtop_ligand_id_mapping_url :: string where
  "gtop_ligand_id_mapping_url = ''https://www.guidetopharmacology.org/DATA/ligand_id_mapping.tsv''"

text \<open>The pattern \<^verbatim>\<open>Current Release Version (\d{4}\.\d) \(.*\)\<close>, searched in a line.\<close>

definition gtop_release_matches :: "string \<Rightarrow> string list" where
  "gtop_release_matches line =
     findall (lits ''Current Release Version '')
             [Times 4 Digit, One (Lit CHR ''.''), One Digit]
             [One (Lit CHR '' ''), One (Lit CHR ''(''), Star AnyChar, One (Lit CHR '')'')]
             line"

text \<open>
  The \<^verbatim>\<open>for\<close> loop of \<^verbatim>\<open>_get_latest_version\<close> over the lines of the page, with its
  \<^verbatim>\<open>else\<close> branch: the loop has no \<^verbatim>\<open>break\<close>, so the branch runs whenever no line
  made the function return.
\<close>

fun gtop_scan_lines :: "string list \<Rightarrow> error + string" where
  "gtop_scan_lines [] = Inl RemoteDataError"
| "gtop_scan_lines (line # r_text) =
     (if contains ''Current Release Version'' line
      then (case gtop_release_matches (strip line) of
              [] \<Rightarrow> gtop_scan_lines r_text
            | m # ms \<Rightarrow> Inr m)
      else gtop_scan_lines r_text)"

definition gtop_get_latest_version :: "world \<Rightarrow> (error + string) \<times> world" where
  "gtop_get_latest_version w =
     (case requests_get gtop_home_url w of (r, w1) \<Rightarrow>
        (case r of
           None \<Rightarrow> (Inl ConnectionError, w1)
         | Some resp \<Rightarrow>
             if bad_status resp then (Inl HTTPError, w1)
             else (gtop_scan_lines (split_on CHR 0x0A (text_of resp)), w1)))"

text \<open>The pattern \<^verbatim>\<open>gtop_ligands_(\d{4}\.\d+).tsv\<close>.\<close>

definition gtop_ligands_pattern :: "rx_item list \<times> rx_item list \<times> rx_item list" where
  "gtop_ligands_pattern =
     (lits ''gtop_ligands_'', [Times 4 Digit, One (Lit CHR ''.''), Plus Digit], One AnyChar # lits ''tsv'')"

text \<open>
  \<^verbatim>\<open>_download_files\<close>: two fetches through \<^verbatim>\<open>_http_download\<close>, the second only when
  the first has not raised.
\<close>

definition gtop_download_files :: "path \<times> path \<Rightarrow> world \<Rightarrow> (error + unit) \<times> world" where
  "gtop_download_files file_paths w =
     (case download_http gtop_ligands_url (fst file_paths) None w of
        (Inl e, w1) \<Rightarrow> (Inl e, w1)
      | (Inr u, w1) \<Rightarrow> download_http gtop_ligand_id_mapping_url (snd file_paths) None w1)"

text \<open>
  The scan of the data directory for the latest file of a glob is the method
  \<^verbatim>\<open>_get_latest_local_file\<close> of the base class, which is not among the sources. It is
  the parameter \<open>scan\<close>, which yields the name of a file of the data directory or
  raises. The pair of paths is \<^verbatim>\<open>GtoPLigandPaths\<close>, the ligands file first.
\<close>

type_synonym scanner = "string \<Rightarrow> world \<Rightarrow> (error + string) \<times> world"

text \<open>The last two lines of \<^verbatim>\<open>get_latest\<close>: fetch the group, then return it.\<close>

definition gtop_fetch :: "path \<times> path \<Rightarrow> string \<Rightarrow> world \<Rightarrow> (error + (path \<times> path) \<times> string) \<times> world" where
  "gtop_fetch file_paths latest_version w =
     (case gtop_download_files file_paths w of
        (Inl e, w1) \<Rightarrow> (Inl e, w1)
      | (Inr u, w1) \<Rightarrow> (Inr (file_paths, latest_version), w1))"

definition gtop_get_latest :: "scanner \<Rightarrow> bool \<Rightarrow> bool \<Rightarrow> world \<Rightarrow> (error + (path \<times> path) \<times> string) \<times> world" where
  "gtop_get_latest scan from_local force_refresh w =
     (if force_refresh \<and> from_local then (Inl ValueError, w)
      else if from_local then
        (case scan ''gtop_ligands_*.tsv'' w of
           (Inl e, w1) \<Rightarrow> (Inl e, w1)
         | (Inr ligands_path, w1) \<Rightarrow>
             (case scan ''gtop_ligand_id_mapping_*.tsv'' w1 of
                (Inl e, w2) \<Rightarrow> (Inl e, w2)
              | (Inr ligand_id_mapping_path, w2) \<Rightarrow>
                  (case parse_file_version ligands_path gtop_ligands_pattern of
                     Inl e \<Rightarrow> (Inl e, w2)
                   | Inr version \<Rightarrow>
                       (Inr ((DataFile ligands_path, DataFile ligand_id_mapping_path), version), w2))))
      else
        (case gtop_get_latest_version w of
           (Inl e, w1) \<Rightarrow> (Inl e, w1)
         | (Inr latest_version, w1) \<Rightarrow>
             (let ligands_path = DataFile (''gtop_ligands_'' @ latest_version @ ''.tsv'');
                  ligand_id_mapping_path = DataFile (''gtop_ligand_id_mapping_'' @ latest_version @ ''.tsv'');
                  file_paths = (ligands_path, ligand_id_mapping_path)
              in if \<not> force_refresh then
                   (if exists_file ligands_path w1 \<and> exists_file ligand_id_mapping_path w1
                    then (Inr (file_paths, latest_version),
                          log_msg DEBUG ''Found existing files matching latest version'' w1)
                    else if exists_file ligands_path w1 \<or> exists_file ligand_id_mapping_path w1
                    then gtop_fetch file_paths latest_version
                           (log_msg WARNING ''Existing files not all available -- attempting full download'' w1)
                    else gtop_fetch file_paths latest_version w1)
                 else gtop_fetch file_paths latest_version w1)))"

section \<open>RxNorm\<close>

subsection \<open>Dates\<close>

datatype date = Date (year: nat) (month: nat) (day: nat)

text \<open>The order of \<^verbatim>\<open>datetime\<close> values that hold a date only.\<close>

definition date_less :: "date \<Rightarrow> date \<Rightarrow> bool" where
  "date_less a b =
     (year a < year b \<or> (year a = year b \<and> (month a < month b \<or> (month a = month b \<and> day a < day b))))"

definition leap_year :: "nat \<Rightarrow> bool" where
  "leap_year y = (y mod 4 = 0 \<and> (y mod 100 \<noteq> 0 \<or> y mod 400 = 0))"

definition days_in_month :: "nat \<Rightarrow> nat \<Rightarrow> nat" where
  "days_in_month y m =
     (if m = 2 then (if leap_year y then 29 else 28)
      else if m \<in> {4, 6, 9, 11} then 30 else 31)"

text \<open>The dates \<^verbatim>\<open>datetime\<close> accepts: years 1 to 9999.\<close>

definition valid_date :: "date \<Rightarrow> bool" where
  "valid_date d =
     (1 \<le> year d \<and> year d \<le> 9999 \<and> 1 \<le> month d \<and> month d \<le> 12 \<and>
      1 \<le> day d \<and> day d \<le> days_in_month (year d) (month d))"

text \<open>
  A format of \<^verbatim>\<open>strptime\<close> and \<^verbatim>\<open>strftime\<close> as the list of its directives
  \<^verbatim>\<open>%d\<close>, \<^verbatim>\<open>%m\<close>, \<^verbatim>\<open>%b\<close>, \<^verbatim>\<open>%Y\<close> and its literal characters.
\<close>

datatype directive = Pct_d | Pct_m | Pct_b | Pct_Y | Chr char

definition month_abbr :: "string list" where
  "month_abbr = [''Jan'', ''Feb'', ''Mar'', ''Apr'', ''May'', ''Jun'',
                 ''Jul'', ''Aug'', ''Sep'', ''Oct'', ''Nov'', ''Dec'']"

definition to_lower :: "char \<Rightarrow> char" where
  "to_lower c = (let n = (of_char c :: nat) in if 65 \<le> n \<and> n \<le> 90 then char_of (n + 32) else c)"

text \<open>A number in decimal, filled with zeros to \<open>k\<close> digits.\<close>

fun pad :: "nat \<Rightarrow> nat \<Rightarrow> string" where
  "pad 0 n = []"
| "pad (Suc k) n = pad k (n div 10) @ [digit_char (n mod 10)]"

text \<open>
  \<^verbatim>\<open>strftime\<close>, which is that of the C library: on Linux (glibc) the month and the
  day are filled with zeros to two digits, and the year of \<^verbatim>\<open>%Y\<close> is its decimal
  number with no filling, so a year below 1000 has fewer than four digits. The month
  name is that of the C locale.
\<close>

fun strftime_dir :: "directive \<Rightarrow> date \<Rightarrow> string" where
  "strftime_dir Pct_d dt = pad 2 (day dt)"
| "strftime_dir Pct_m dt = pad 2 (month dt)"
| "strftime_dir Pct_Y dt = show_nat (year dt)"
| "strftime_dir Pct_b dt = month_abbr ! (month dt - 1)"
| "strftime_dir (Chr c) dt = [c]"

definition strftime :: "directive list \<Rightarrow> date \<Rightarrow> string" where
  "strftime fmt dt = concat (map (\<lambda>x. strftime_dir x dt) fmt)"

text \<open>
  \<^verbatim>\<open>strptime\<close> compiles the format to a regular expression, case ignored, in which
  each directive is a group of alternatives tried in order:
  \<^verbatim>\<open>%d\<close> is \<^verbatim>\<open>3[0-1]|[1-2]\d|0[1-9]|[1-9]| [1-9]\<close>,
  \<^verbatim>\<open>%m\<close> is \<^verbatim>\<open>1[0-2]|0[1-9]|[1-9]\<close>, \<^verbatim>\<open>%Y\<close> is \<^verbatim>\<open>\d\d\d\d\<close> and
  \<^verbatim>\<open>%b\<close> the month names. \<open>alt p q s\<close> is one alternative of two characters,
  \<open>alt1 p s\<close> one of a single character; each yields the number read and the rest.
\<close>

definition alt :: "(char \<Rightarrow> bool) \<Rightarrow> (char \<Rightarrow> bool) \<Rightarrow> string \<Rightarrow> (nat \<times> string) list" where
  "alt p q s =
     (case s of
        a # b # rest \<Rightarrow> if p a \<and> q b then [(dec_val (filter is_digit [a, b]), rest)] else []
      | _ \<Rightarrow> [])"

definition alt1 :: "(char \<Rightarrow> bool) \<Rightarrow> string \<Rightarrow> (nat \<times> string) list" where
  "alt1 p s = (case s of a # rest \<Rightarrow> if p a then [(digit_val a, rest)] else [] | _ \<Rightarrow> [])"

definition nonzero_digit :: "char \<Rightarrow> bool" where
  "nonzero_digit c = (c \<in> set ''123456789'')"

definition month_alts :: "string \<Rightarrow> (nat \<times> string) list" where
  "month_alts s =
     concat (map (\<lambda>i. if length s \<ge> 3 \<and> map to_lower (take 3 s) = map to_lower (month_abbr ! i)
                       then [(Suc i, drop 3 s)] else [])
                 [0 ..< 12])"

fun dir_alts :: "directive \<Rightarrow> string \<Rightarrow> (nat \<times> string) list" where
  "dir_alts Pct_d s =
     alt (\<lambda>c. c = CHR ''3'') (\<lambda>c. c \<in> set ''01'') s @
     alt (\<lambda>c. c \<in> set ''12'') is_digit s @
     alt (\<lambda>c. c = CHR ''0'') nonzero_digit s @
     alt1 nonzero_digit s @
     alt (\<lambda>c. c = CHR '' '') nonzero_digit s"
| "dir_alts Pct_m s =
     alt (\<lambda>c. c = CHR ''1'') (\<lambda>c. c \<in> set ''012'') s @
     alt (\<lambda>c. c = CHR ''0'') nonzero_digit s @
     alt1 nonzero_digit s"
| "dir_alts Pct_Y s =
     (if 4 \<le> length s \<and> list_all is_digit (take 4 s) then [(dec_val (take 4 s), drop 4 s)] else [])"
| "dir_alts Pct_b s = month_alts s"
| "dir_alts (Chr c) s =
     (case s of a # rest \<Rightarrow> if to_lower a = to_lower c then [(0, rest)] else [] | _ \<Rightarrow> [])"

fun set_field :: "directive \<Rightarrow> nat \<Rightarrow> date \<Rightarrow> date" where
  "set_field Pct_d v (Date y m d) = Date y m v"
| "set_field Pct_m v (Date y m d) = Date y v d"
| "set_field Pct_b v (Date y m d) = Date y v d"
| "set_field Pct_Y v (Date y m d) = Date v m d"
| "set_field (Chr c) v dt = dt"

text \<open>Every way of matching the format at the start of the string, in the matcher's order.\<close>

fun strptime_alts :: "directive list \<Rightarrow> string \<Rightarrow> date \<Rightarrow> (date \<times> string) list" where
  "strptime_alts [] s dt = [(dt, s)]"
| "strptime_alts (x # fmt) s dt =
     concat (map (\<lambda>vr. strptime_alts fmt (snd vr) (set_field x (fst vr) dt)) (dir_alts x s))"

text \<open>
  \<^verbatim>\<open>strptime\<close>: no match, text left after the first match, or a date that does not
  exist raise \<open>ValueError\<close>. A field the format does not set keeps its default.
\<close>

definition strptime :: "string \<Rightarrow> directive list \<Rightarrow> error + date" where
  "strptime s fmt =
     (case strptime_alts fmt s (Date 1900 1 1) of
        [] \<Rightarrow> Inl ValueError
      | (dt, rest) # _ \<Rightarrow> if rest = [] \<and> valid_date dt then Inr dt else Inl ValueError)"

text \<open>
  Modelled from the spec: the constant \<^verbatim>\<open>DATE_VERSION_PATTERN\<close> of the versioning
  utilities, which is not among the sources. The spec (4.1): a fixed canonical
  format, year, month and day as in \<^verbatim>\<open>YYYY-MM-DD\<close> or an equivalent: the
  directives \<^verbatim>\<open>%Y\<close>, \<^verbatim>\<open>%m\<close>, \<^verbatim>\<open>%d\<close>. The text between the fields is the
  parameter \<open>sep\<close>.
\<close>

definition DATE_VERSION_PATTERN :: "string \<Rightarrow> directive list" where
  "DATE_VERSION_PATTERN sep = Pct_Y # map Chr sep @ Pct_m # map Chr sep @ [Pct_d]"

subsection \<open>The source\<close>

definition rxnorm_version_url :: string where
  "rxnorm_version_url = ''https://rxnav.nlm.nih.gov/REST/version.json''"

text \<open>
  The body of the \<^verbatim>\<open>try\<close> of \<^verbatim>\<open>_get_latest_version\<close>. \<^verbatim>\<open>strptime\<close> raises
  \<open>TypeError\<close> for a value that is no string. The error of the JSON decoder is a
  subclass of \<open>ValueError\<close>, so \<^verbatim>\<open>except (ValueError, KeyError)\<close> takes it too.
\<close>

definition rxnorm_parse_version :: "string \<Rightarrow> response \<Rightarrow> error + string" where
  "rxnorm_parse_version sep r =
     (case json_of r of
        None \<Rightarrow> Inl JSONDecodeError
      | Some j \<Rightarrow>
          (case subscript_key j ''version'' of
             Inl e \<Rightarrow> Inl e
           | Inr (JString raw_version) \<Rightarrow>
               (case strptime raw_version [Pct_d, Chr CHR ''-'', Pct_b, Chr CHR ''-'', Pct_Y] of
                  Inl e \<Rightarrow> Inl e
                | Inr dt \<Rightarrow> Inr (strftime (DATE_VERSION_PATTERN sep) dt))
           | Inr other \<Rightarrow> Inl TypeError))"

definition rxnorm_get_latest_version :: "string \<Rightarrow> world \<Rightarrow> (error + string) \<times> world" where
  "rxnorm_get_latest_version sep w =
     (case requests_get rxnorm_version_url w of (r, w1) \<Rightarrow>
        (case r of
           None \<Rightarrow> (Inl ConnectionError, w1)
         | Some resp \<Rightarrow>
             if bad_status resp then (Inl HTTPError, w1)
             else (case rxnorm_parse_version sep resp of
                     Inl e \<Rightarrow> (if e = ValueError \<or> e = JSONDecodeError \<or> e = KeyError
                                then Inl RemoteDataError else Inl e, w1)
                   | Inr v \<Rightarrow> (Inr v, w1))))"

text \<open>
  \<^verbatim>\<open>_zip_handler\<close>. Opening the archive raises when the file is missing or is no
  archive. The \<^verbatim>\<open>for\<close> loop takes the first member named \<^verbatim>\<open>rrf/RXNCONSO.RRF\<close>; its
  \<^verbatim>\<open>else\<close> branch raises inside the \<^verbatim>\<open>with\<close> block, so the \<^verbatim>\<open>os.remove\<close> after the
  block is not reached then. The member is renamed to the name of the destination and
  extracted into the destination's directory, which writes the destination.
\<close>

definition read_file :: "path \<Rightarrow> world \<Rightarrow> blob option" where
  "read_file p w = map_of (fs w) p"

fun find_member :: "string \<Rightarrow> (string \<times> string) list \<Rightarrow> string option" where
  "find_member name [] = None"
| "find_member name (file # filelist) =
     (if fst file = name then Some (snd file) else find_member name filelist)"

definition rxnorm_zip_handler :: handler where
  "rxnorm_zip_handler dl_path outfile_path w =
     (case read_file dl_path w of
        None \<Rightarrow> (Inl FileNotFoundError, w)
      | Some (Data bytes) \<Rightarrow> (Inl BadZipFile, w)
      | Some (Archive filelist) \<Rightarrow>
          (case find_member ''rrf/RXNCONSO.RRF'' filelist of
             None \<Rightarrow> (Inl RemoteDataError, w)
           | Some target \<Rightarrow> (Inr (), remove_file dl_path (write_file outfile_path (Data target) w))))"

definition rxnorm_download_data :: "string \<Rightarrow> string \<Rightarrow> path \<Rightarrow> world \<Rightarrow> (error + unit) \<times> world" where
  "rxnorm_download_data sep version file_path w =
     (case map_of (environ w) ''UMLS_API_KEY'' of
        None \<Rightarrow> (Inl RemoteDataError,
                 log_msg ERROR ''Could not find `UMLS_API_KEY` in environment variables.'' w)
      | Some api_key \<Rightarrow>
          (case strptime version (DATE_VERSION_PATTERN sep) of
             Inl e \<Rightarrow> (Inl e, w)
           | Inr dt \<Rightarrow>
               (let fmt_version = strftime [Pct_m, Pct_d, Pct_Y] dt;
                    dl_url = ''https://download.nlm.nih.gov/umls/kss/rxnorm/RxNorm_full_'' @ fmt_version @ ''.zip'';
                    url = ''https://uts-ws.nlm.nih.gov/download?url='' @ dl_url @ ''&apiKey='' @ api_key
                in download_http url file_path (Some rxnorm_zip_handler) w)))"

text \<open>
  Modelled from the spec: \<^verbatim>\<open>get_latest\<close> of the base class \<^verbatim>\<open>DataSource\<close>, which
  \<^verbatim>\<open>RxNormData\<close> inherits and which is not among the sources. The spec (4.4): both
  flags fail with a configuration error; \<open>FromLocal\<close> delegates to the scan of the
  cache; otherwise the remote version is resolved; without \<open>ForceRefresh\<close> a local
  file of that version, named \<^verbatim>\<open><source>_<version>.<ext>\<close>, is returned; otherwise
  the file is downloaded, and a failure of the download is the failure of the call.
\<close>

definition DataSource_get_latest ::
  "string \<Rightarrow> string \<Rightarrow> (world \<Rightarrow> (error + string) \<times> world) \<Rightarrow>
   (string \<Rightarrow> path \<Rightarrow> world \<Rightarrow> (error + unit) \<times> world) \<Rightarrow>
   (world \<Rightarrow> (error + path \<times> string) \<times> world) \<Rightarrow>
   bool \<Rightarrow> bool \<Rightarrow> world \<Rightarrow> (error + path \<times> string) \<times> world" where
  "DataSource_get_latest src_name filetype get_latest_version download_data latest_local from_local force_refresh w =
     (if force_refresh \<and> from_local then (Inl ValueError, w)
      else if from_local then latest_local w
      else (case get_latest_version w of
              (Inl e, w1) \<Rightarrow> (Inl e, w1)
            | (Inr latest_version, w1) \<Rightarrow>
                (let latest_file = DataFile (src_name @ ''_'' @ latest_version @ ''.'' @ filetype)
                 in if \<not> force_refresh \<and> exists_file latest_file w1
                    then (Inr (latest_file, latest_version), w1)
                    else (case download_data latest_version latest_file w1 of
                            (Inl e, w2) \<Rightarrow> (Inl e, w2)
                          | (Inr u, w2) \<Rightarrow> (Inr (latest_file, latest_version), w2)))))"

definition rxnorm_get_latest ::
  "string \<Rightarrow> (world \<Rightarrow> (error + path \<times> string) \<times> world) \<Rightarrow> bool \<Rightarrow> bool \<Rightarrow> world \<Rightarrow> (error + path \<times> string) \<times> world" where
  "rxnorm_get_latest sep latest_local =
     DataSource_get_latest ''rxnorm'' ''RRF'' (rxnorm_get_latest_version sep) (rxnorm_download_data sep) latest_local"

section \<open>Concrete worlds\<close>

text \<open>Inputs on which the properties below are evaluated.\<close>

definition world0 :: world where
  "world0 = \<lparr>fs = [], environ = [], web = (\<lambda>u. None), net = [], logs = []\<rparr>"

definition ok_response :: response where
  "ok_response = \<lparr>status = 200, text_of = [], json_of = None, content = Data []\<rparr>"

text \<open>A handler that does nothing and a scanner that finds nothing.\<close>

definition no_handler :: handler where
  "no_handler dl_path outfile_path w = (Inr (), w)"

definition no_scan :: scanner where
  "no_scan pat w = (Inl FileNotFoundError, w)"

text \<open>The release 5.1.10 of DrugBank is published and is in the cache.\<close>

definition drugbank_cached_world :: world where
  "drugbank_cached_world = world0
     \<lparr>fs := [(DataFile ''drugbank_5.1.10.csv'', Data ''id,name'')],
      web := (\<lambda>u. if u = drugbank_releases_url
                    then Some (ok_response\<lparr>json_of := Some (JArray [JObject
                           [(''version'', JString ''5.1.10''),
                            (''url'', JString ''https://go.drugbank.com/releases/5-1-10'')]])\<rparr>)
                    else None)\<rparr>"

text \<open>
  The server of Guide to Pharmacology: its home page announces the release 2023.2,
  and both data files can be fetched.
\<close>

definition gtop_home_page :: string where
  "gtop_home_page = ''<b>Current Release Version 2023.2 (5th Sept 2023)</b>''"

definition gtop_web :: "string \<Rightarrow> response option" where
  "gtop_web u =
     (if u = gtop_home_url then Some (ok_response\<lparr>text_of := gtop_home_page\<rparr>)
      else if u = gtop_ligands_url then Some (ok_response\<lparr>content := Data ''ligands''\<rparr>)
      else if u = gtop_ligand_id_mapping_url then Some (ok_response\<lparr>content := Data ''mapping''\<rparr>)
      else None)"

text \<open>Both files of the release 2023.2 are in the cache.\<close>

definition gtop_cached_world :: world where
  "gtop_cached_world = world0
     \<lparr>fs := [(DataFile ''gtop_ligands_2023.2.tsv'', Data ''old ligands''),
             (DataFile ''gtop_ligand_id_mapping_2023.2.tsv'', Data ''old mapping'')],
      web := gtop_web\<rparr>"

text \<open>Only the ligands file of the release 2023.2 is in the cache.\<close>

definition gtop_partial_world :: world where
  "gtop_partial_world = world0
     \<lparr>fs := [(DataFile ''gtop_ligands_2023.2.tsv'', Data ''old ligands'')],
      web := gtop_web\<rparr>"

text \<open>DrugBank's release list is empty, while a file is in the cache.\<close>

definition drugbank_empty_releases_world :: world where
  "drugbank_empty_releases_world = drugbank_cached_world
     \<lparr>web := (\<lambda>u. if u = drugbank_releases_url
                    then Some (ok_response\<lparr>json_of := Some (JArray [])\<rparr>) else None)\<rparr>"

text \<open>
  The release list of DrugBank answers with a body that is not JSON, with a list
  whose first element is a string, or with a first release whose version and URL
  are null, while a file is in the cache.
\<close>

definition drugbank_not_json_world :: world where
  "drugbank_not_json_world = drugbank_cached_world
     \<lparr>web := (\<lambda>u. if u = drugbank_releases_url
                    then Some (ok_response\<lparr>text_of := ''<html>Service unavailable</html>''\<rparr>)
                    else None)\<rparr>"

definition drugbank_string_release_world :: world where
  "drugbank_string_release_world = drugbank_cached_world
     \<lparr>web := (\<lambda>u. if u = drugbank_releases_url
                    then Some (ok_response\<lparr>json_of := Some (JArray [JString ''5.1.10''])\<rparr>)
                    else None)\<rparr>"

definition drugbank_null_version_world :: world where
  "drugbank_null_version_world = drugbank_cached_world
     \<lparr>web := (\<lambda>u. if u = drugbank_releases_url
                    then Some (ok_response\<lparr>json_of := Some (JArray [JObject
                           [(''version'', JNull), (''url'', JNull)]])\<rparr>)
                    else None)\<rparr>"

text \<open>The cache of DrugBank holds the versions 2.3, 2.10 and 1.0, listed in this order.\<close>

definition drugbank_three_versions_world :: world where
  "drugbank_three_versions_world = world0
     \<lparr>fs := [(DataFile ''drugbank_2.3.csv'', Data ''b''),
             (DataFile ''drugbank_2.10.csv'', Data ''c''),
             (DataFile ''drugbank_1.0.csv'', Data ''a'')]\<rparr>"

text \<open>
  The cache of Guide to Pharmacology holds the ligands of the releases 2023.1 and
  2023.2 and the mapping of the release 2023.1 only. The scanner reads the version
  of a file of either member by the pattern of that member.
\<close>

definition gtop_ligand_id_mapping_pattern :: "rx_item list \<times> rx_item list \<times> rx_item list" where
  "gtop_ligand_id_mapping_pattern =
     (lits ''gtop_ligand_id_mapping_'', [Times 4 Digit, One (Lit CHR ''.''), Plus Digit], One AnyChar # lits ''tsv'')"

definition gtop_scan :: scanner where
  "gtop_scan glob_pattern =
     LocalCacheScanner_latest
       (if glob_pattern = ''gtop_ligands_*.tsv'' then gtop_ligands_pattern else gtop_ligand_id_mapping_pattern)
       glob_pattern"

definition gtop_mixed_versions_world :: world where
  "gtop_mixed_versions_world = world0
     \<lparr>fs := [(DataFile ''gtop_ligands_2023.2.tsv'', Data ''ligands 2''),
             (DataFile ''gtop_ligands_2023.1.tsv'', Data ''ligands 1''),
             (DataFile ''gtop_ligand_id_mapping_2023.1.tsv'', Data ''mapping 1'')]\<rparr>"

text \<open>
  A download of RxNorm has been written to the temporary file. In the first world
  the archive has no member \<^verbatim>\<open>rrf/RXNCONSO.RRF\<close>, in the second it has one.
\<close>

definition rxnorm_missing_member_world :: world where
  "rxnorm_missing_member_world = world0
     \<lparr>fs := [(TempFile, Archive [(''rrf/RXNSAT.RRF'', ''attributes''), (''Readme.txt'', ''notes'')])]\<rparr>"

definition rxnorm_full_archive_world :: world where
  "rxnorm_full_archive_world = world0
     \<lparr>fs := [(TempFile, Archive [(''Readme.txt'', ''notes''), (''rrf/RXNCONSO.RRF'', ''concepts'')])]\<rparr>"

text \<open>
  The version endpoint of RxNorm answers with the given value of \<^verbatim>\<open>version\<close>; the
  environment holds no API key and the cache is empty.
\<close>

definition rxnorm_world :: "string \<Rightarrow> world" where
  "rxnorm_world raw_version = world0
     \<lparr>web := (\<lambda>u. if u = rxnorm_version_url
                    then Some (ok_response\<lparr>json_of := Some (JObject [(''version'', JString raw_version)])\<rparr>)
                    else None)\<rparr>"

text \<open>
  Next to \<^verbatim>\<open>drugbank_5.1.10.csv\<close> the cache of DrugBank holds a file whose name has
  no version, or a file whose version has an empty piece.
\<close>

definition drugbank_stray_file_world :: world where
  "drugbank_stray_file_world = world0
     \<lparr>fs := [(DataFile ''drugbank_5.1.10.csv'', Data ''id,name''),
             (DataFile ''drugbank_notes.csv'', Data ''notes'')]\<rparr>"

definition drugbank_empty_piece_world :: world where
  "drugbank_empty_piece_world = world0
     \<lparr>fs := [(DataFile ''drugbank_5.1.10.csv'', Data ''id,name''),
             (DataFile ''drugbank_5..1.csv'', Data ''id,name'')]\<rparr>"

text \<open>The version endpoint of RxNorm answers with a body that is not JSON.\<close>

definition rxnorm_not_json_world :: world where
  "rxnorm_not_json_world = world0
     \<lparr>web := (\<lambda>u. if u = rxnorm_version_url
                    then Some (ok_response\<lparr>text_of := ''<html>Service unavailable</html>''\<rparr>)
                    else None)\<rparr>"

section \<open>Properties\<close>

subsection \<open>Helper facts about the world\<close>

lemma exists_file_net: "exists_file p (w\<lparr>net := n\<rparr>) = exists_file p w"
  by (simp add: exists_file_def)

lemma exists_file_log_msg: "exists_file p (log_msg l m w) = exists_file p w"
  by (simp add: exists_file_def log_msg_def)

lemma drugbank_get_latest_version_world:
  "snd (drugbank_get_latest_version w) = w\<lparr>net := net w @ [drugbank_releases_url]\<rparr>"
  by (simp add: drugbank_get_latest_version_def requests_get_def split: option.splits sum.splits)

lemma gtop_get_latest_version_world:
  "snd (gtop_get_latest_version w) = w\<lparr>net := net w @ [gtop_home_url]\<rparr>"
  by (simp add: gtop_get_latest_version_def requests_get_def split: option.splits)

lemma map_of_filter_neq_append:
  "map_of (filter (\<lambda>e. fst e \<noteq> p) xs @ [(p, b)]) q = (if q = p then Some b else map_of xs q)"
  by (induction xs) auto

lemma read_file_write_file: "read_file q (write_file p b w) = (if q = p then Some b else read_file q w)"
  by (simp add: read_file_def write_file_def map_of_filter_neq_append del: map_of_append)

lemma map_of_filter_neq:
  "map_of (filter (\<lambda>e. fst e \<noteq> p) xs) q = (if q = p then None else map_of xs q)"
  by (induction xs) auto

lemma read_file_remove_file: "read_file q (remove_file p w) = (if q = p then None else read_file q w)"
  by (simp add: read_file_def remove_file_def map_of_filter_neq)

lemma read_file_net: "read_file q (w\<lparr>net := n\<rparr>) = read_file q w"
  by (simp add: read_file_def)

lemma write_file_fields:
  "net (write_file p b w) = net w" "logs (write_file p b w) = logs w"
  "web (write_file p b w) = web w" "environ (write_file p b w) = environ w"
  by (simp_all add: write_file_def)

lemma remove_file_fields:
  "net (remove_file p w) = net w" "logs (remove_file p w) = logs w"
  "web (remove_file p w) = web w" "environ (remove_file p w) = environ w"
  by (simp_all add: remove_file_def)

text \<open>A fetch with no handler, by the answer of the server.\<close>

lemma download_http_no_handler:
  "download_http url p None w =
     (case web w url of
        None \<Rightarrow> (Inl NetworkError, w\<lparr>net := net w @ [url]\<rparr>)
      | Some r \<Rightarrow>
          if bad_status r then (Inl NetworkError, w\<lparr>net := net w @ [url]\<rparr>)
          else (Inr (), write_file p (content r)
                          (remove_file TempFile (write_file TempFile (content r) (w\<lparr>net := net w @ [url]\<rparr>)))))"
  by (simp add: download_http_def requests_get_def Let_def split: option.splits)

lemma download_http_no_handler_logs: "logs (snd (download_http url p None w)) = logs w"
  by (simp add: download_http_no_handler write_file_fields remove_file_fields split: option.splits)

lemma download_http_no_handler_web: "web (snd (download_http url p None w)) = web w"
  by (simp add: download_http_no_handler write_file_fields remove_file_fields split: option.splits)

lemma download_http_no_handler_net: "net (snd (download_http url p None w)) = net w @ [url]"
  by (simp add: download_http_no_handler write_file_fields remove_file_fields split: option.splits)

lemma download_http_no_handler_Inr:
  assumes "fst (download_http url p None w) = Inr u" and "p \<noteq> TempFile"
  shows "\<exists>r. web w url = Some r \<and> \<not> bad_status r \<and>
             read_file p (snd (download_http url p None w)) = Some (content r) \<and>
             (\<forall>q. q \<noteq> p \<longrightarrow> q \<noteq> TempFile \<longrightarrow>
                  read_file q (snd (download_http url p None w)) = read_file q w)"
  using assms
  by (auto simp: download_http_no_handler read_file_write_file read_file_remove_file read_file_net
           split: option.splits if_splits)

lemma download_http_no_handler_Inl:
  "fst (download_http url p None w) = Inl e \<Longrightarrow> e = NetworkError"
  by (auto simp: download_http_no_handler split: option.splits if_splits)

lemma download_http_no_handler_ok:
  "web w url = Some r \<Longrightarrow> \<not> bad_status r \<Longrightarrow> fst (download_http url p None w) = Inr ()"
  by (simp add: download_http_no_handler)

lemma gtop_fetch_logs: "logs (snd (gtop_fetch fp v w)) = logs w"
  using download_http_no_handler_logs [of gtop_ligands_url "fst fp" w]
        download_http_no_handler_logs [of gtop_ligand_id_mapping_url "snd fp"
           "snd (download_http gtop_ligands_url (fst fp) None w)"]
  by (auto simp: gtop_fetch_def gtop_download_files_def split: prod.splits sum.splits)

lemma gtop_fetch_net:
  "net (snd (gtop_fetch fp v w)) =
     (if \<exists>e. fst (download_http gtop_ligands_url (fst fp) None w) = Inl e
      then net w @ [gtop_ligands_url]
      else net w @ [gtop_ligands_url, gtop_ligand_id_mapping_url])"
  using download_http_no_handler_net [of gtop_ligands_url "fst fp" w]
        download_http_no_handler_net [of gtop_ligand_id_mapping_url "snd fp"
           "snd (download_http gtop_ligands_url (fst fp) None w)"]
  by (auto simp: gtop_fetch_def gtop_download_files_def split: prod.splits sum.splits)

lemma gtop_fetch_Inl: "fst (gtop_fetch fp v w) = Inl e \<Longrightarrow> e = NetworkError"
  using download_http_no_handler_Inl [of gtop_ligands_url "fst fp" w e]
        download_http_no_handler_Inl [of gtop_ligand_id_mapping_url "snd fp"
           "snd (download_http gtop_ligands_url (fst fp) None w)" e]
  by (auto simp: gtop_fetch_def gtop_download_files_def split: prod.splits sum.splits)

lemma gtop_fetch_Inr:
  assumes "fst (gtop_fetch (a, b) v w) = Inr x" and "a \<noteq> TempFile" and "b \<noteq> TempFile" and "a \<noteq> b"
  shows "x = ((a, b), v) \<and>
         net (snd (gtop_fetch (a, b) v w)) = net w @ [gtop_ligands_url, gtop_ligand_id_mapping_url] \<and>
         (\<exists>r1 r2. web w gtop_ligands_url = Some r1 \<and> \<not> bad_status r1 \<and>
                  web w gtop_ligand_id_mapping_url = Some r2 \<and> \<not> bad_status r2 \<and>
                  read_file a (snd (gtop_fetch (a, b) v w)) = Some (content r1) \<and>
                  read_file b (snd (gtop_fetch (a, b) v w)) = Some (content r2))"
proof -
  obtain r1 w1 where d1: "download_http gtop_ligands_url a None w = (r1, w1)" by fastforce
  obtain r2 w2 where d2: "download_http gtop_ligand_id_mapping_url b None w1 = (r2, w2)" by fastforce
  from assms(1) d1 d2 have ok1: "r1 = Inr ()" and ok2: "r2 = Inr ()" and x: "x = ((a, b), v)"
    and sn: "snd (gtop_fetch (a, b) v w) = w2"
    by (auto simp: gtop_fetch_def gtop_download_files_def split: sum.splits)
  from download_http_no_handler_Inr [of gtop_ligands_url a w "()"] d1 ok1 assms(2)
  obtain s1 where s1: "web w gtop_ligands_url = Some s1" "\<not> bad_status s1"
    "read_file a w1 = Some (content s1)" by auto
  from download_http_no_handler_Inr [of gtop_ligand_id_mapping_url b w1 "()"] d2 ok2 assms(3)
  obtain s2 where s2: "web w1 gtop_ligand_id_mapping_url = Some s2" "\<not> bad_status s2"
    "read_file b w2 = Some (content s2)"
    "\<forall>q. q \<noteq> b \<longrightarrow> q \<noteq> TempFile \<longrightarrow> read_file q w2 = read_file q w1" by auto
  have web1: "web w1 = web w" using download_http_no_handler_web [of gtop_ligands_url a w] d1 by simp
  have n: "net w2 = net w @ [gtop_ligands_url, gtop_ligand_id_mapping_url]"
    using download_http_no_handler_net [of gtop_ligands_url a w]
          download_http_no_handler_net [of gtop_ligand_id_mapping_url b w1] d1 d2 by simp
  have "read_file a w2 = Some (content s1)" using s2(4) s1(3) assms(2,4) by simp
  with s1 s2 web1 n x sn show ?thesis by simp
qed

lemma gtop_fetch_ok:
  assumes "web w gtop_ligands_url = Some r1" "\<not> bad_status r1"
    "web w gtop_ligand_id_mapping_url = Some r2" "\<not> bad_status r2"
  shows "fst (gtop_fetch fp v w) = Inr (fp, v)"
proof -
  obtain w1 where d1: "download_http gtop_ligands_url (fst fp) None w = (Inr (), w1)"
    using download_http_no_handler_ok [OF assms(1,2), of "fst fp"]
    by (metis prod.collapse)
  have "web w1 = web w" using download_http_no_handler_web [of gtop_ligands_url "fst fp" w] d1 by simp
  then have "fst (download_http gtop_ligand_id_mapping_url (snd fp) None w1) = Inr ()"
    using download_http_no_handler_ok [of w1 gtop_ligand_id_mapping_url r2 "snd fp"] assms(3,4) by simp
  with d1 show ?thesis
    by (auto simp: gtop_fetch_def gtop_download_files_def split: prod.splits sum.splits)
qed

subsection \<open>Conflicting flags\<close>

text \<open>
  Claim C3. Called with both \<open>from_local\<close> and \<open>force_refresh\<close> set, \<^verbatim>\<open>get_latest\<close> of
  DrugBank and of Guide to Pharmacology raises \<open>ValueError\<close> whatever the files, the
  servers, the handler and the scanner are, and leaves the world as it was: no
  request has been made, no file scanned or written, nothing logged.
\<close>

theorem get_latest_both_flags_ValueError:
  "drugbank_get_latest handle_zip True True w = (Inl ValueError, w) \<and>
   gtop_get_latest scan True True w = (Inl ValueError, w)"
  by (simp add: drugbank_get_latest_def gtop_get_latest_def)

subsection \<open>Cache hits\<close>

lemma gtop_version_eval:
  "gtop_scan_lines (split_on CHR 0x0A gtop_home_page) = Inr ''2023.2''"
  by code_simp

lemma gtop_web_version:
  "web w = gtop_web \<Longrightarrow> gtop_get_latest_version w = (Inr ''2023.2'', w\<lparr>net := net w @ [gtop_home_url]\<rparr>)"
  by (simp add: gtop_get_latest_version_def requests_get_def gtop_web_def ok_response_def
      bad_status_def gtop_version_eval)

text \<open>
  Claim C2. Called with neither flag, \<^verbatim>\<open>get_latest\<close> of DrugBank returns the file
  named with the resolved remote version (its \<^verbatim>\<open>str\<close>, which for a string is the
  string) when that file exists, and \<^verbatim>\<open>get_latest\<close>
  of Guide to Pharmacology returns the two files named with it when both exist,
  together with that version. The world after the call differs from the world
  before by the one request that resolved the version and one debug message: no
  download has been requested and no file has been written.
\<close>

theorem get_latest_cache_hit:
  "(fst (drugbank_get_latest_version w) = Inr (v, u) \<longrightarrow>
    exists_file (DataFile (''drugbank_'' @ py_str v @ ''.csv'')) w \<longrightarrow>
    drugbank_get_latest handle_zip False False w =
      (Inr (DataFile (''drugbank_'' @ py_str v @ ''.csv''), v),
       log_msg DEBUG ''Found existing file matching latest version''
         (w\<lparr>net := net w @ [drugbank_releases_url]\<rparr>))) \<and>
   (fst (gtop_get_latest_version w) = Inr version \<longrightarrow>
    exists_file (DataFile (''gtop_ligands_'' @ version @ ''.tsv'')) w \<longrightarrow>
    exists_file (DataFile (''gtop_ligand_id_mapping_'' @ version @ ''.tsv'')) w \<longrightarrow>
    gtop_get_latest scan False False w =
      (Inr ((DataFile (''gtop_ligands_'' @ version @ ''.tsv''),
             DataFile (''gtop_ligand_id_mapping_'' @ version @ ''.tsv'')), version),
       log_msg DEBUG ''Found existing files matching latest version''
         (w\<lparr>net := net w @ [gtop_home_url]\<rparr>)))"
proof (intro conjI impI)
  assume a: "fst (drugbank_get_latest_version w) = Inr (v, u)"
    and e: "exists_file (DataFile (''drugbank_'' @ py_str v @ ''.csv'')) w"
  from a drugbank_get_latest_version_world [of w]
  have "drugbank_get_latest_version w = (Inr (v, u), w\<lparr>net := net w @ [drugbank_releases_url]\<rparr>)"
    by (simp add: prod_eq_iff)
  with e show "drugbank_get_latest handle_zip False False w =
      (Inr (DataFile (''drugbank_'' @ py_str v @ ''.csv''), v),
       log_msg DEBUG ''Found existing file matching latest version''
         (w\<lparr>net := net w @ [drugbank_releases_url]\<rparr>))"
    by (simp add: drugbank_get_latest_def exists_file_net)
next
  assume a: "fst (gtop_get_latest_version w) = Inr version"
    and e1: "exists_file (DataFile (''gtop_ligands_'' @ version @ ''.tsv'')) w"
    and e2: "exists_file (DataFile (''gtop_ligand_id_mapping_'' @ version @ ''.tsv'')) w"
  from a gtop_get_latest_version_world [of w]
  have "gtop_get_latest_version w = (Inr version, w\<lparr>net := net w @ [gtop_home_url]\<rparr>)"
    by (simp add: prod_eq_iff)
  with e1 e2 show "gtop_get_latest scan False False w =
      (Inr ((DataFile (''gtop_ligands_'' @ version @ ''.tsv''),
             DataFile (''gtop_ligand_id_mapping_'' @ version @ ''.tsv'')), version),
       log_msg DEBUG ''Found existing files matching latest version''
         (w\<lparr>net := net w @ [gtop_home_url]\<rparr>))"
    by (simp add: gtop_get_latest_def exists_file_net)
qed

theorem get_latest_cache_hit_witness:
  "drugbank_get_latest no_handler False False drugbank_cached_world =
     (Inr (DataFile ''drugbank_5.1.10.csv'', JString ''5.1.10''),
      log_msg DEBUG ''Found existing file matching latest version''
        (drugbank_cached_world\<lparr>net := [drugbank_releases_url]\<rparr>)) \<and>
   gtop_get_latest no_scan False False gtop_cached_world =
     (Inr ((DataFile ''gtop_ligands_2023.2.tsv'', DataFile ''gtop_ligand_id_mapping_2023.2.tsv''), ''2023.2''),
      log_msg DEBUG ''Found existing files matching latest version''
        (gtop_cached_world\<lparr>net := [gtop_home_url]\<rparr>))"
proof -
  have dv: "fst (drugbank_get_latest_version drugbank_cached_world) =
      Inr (JString ''5.1.10'', JString ''https://go.drugbank.com/releases/5-1-10'')"
    by (simp add: drugbank_get_latest_version_def drugbank_cached_world_def world0_def
        ok_response_def requests_get_def bad_status_def drugbank_parse_release_def)
  have de: "exists_file (DataFile (''drugbank_'' @ py_str (JString ''5.1.10'') @ ''.csv'')) drugbank_cached_world"
    by (simp add: exists_file_def drugbank_cached_world_def world0_def py_str_def)
  have gv: "fst (gtop_get_latest_version gtop_cached_world) = Inr ''2023.2''"
    by (simp add: gtop_web_version gtop_cached_world_def world0_def)
  have ge1: "exists_file (DataFile (''gtop_ligands_'' @ ''2023.2'' @ ''.tsv'')) gtop_cached_world"
    and ge2: "exists_file (DataFile (''gtop_ligand_id_mapping_'' @ ''2023.2'' @ ''.tsv'')) gtop_cached_world"
    by (simp_all add: exists_file_def gtop_cached_world_def world0_def)
  have n1: "net drugbank_cached_world = []" by (simp add: drugbank_cached_world_def world0_def)
  have n2: "net gtop_cached_world = []" by (simp add: gtop_cached_world_def world0_def)
  from get_latest_cache_hit [THEN conjunct1, rule_format, OF dv de, of no_handler] n1
  have 1: "drugbank_get_latest no_handler False False drugbank_cached_world =
     (Inr (DataFile ''drugbank_5.1.10.csv'', JString ''5.1.10''),
      log_msg DEBUG ''Found existing file matching latest version''
        (drugbank_cached_world\<lparr>net := [drugbank_releases_url]\<rparr>))" by (simp add: py_str_def)
  from get_latest_cache_hit [THEN conjunct2, rule_format, OF gv ge1 ge2, of no_scan] n2
  have 2: "gtop_get_latest no_scan False False gtop_cached_world =
     (Inr ((DataFile ''gtop_ligands_2023.2.tsv'', DataFile ''gtop_ligand_id_mapping_2023.2.tsv''), ''2023.2''),
      log_msg DEBUG ''Found existing files matching latest version''
        (gtop_cached_world\<lparr>net := [gtop_home_url]\<rparr>))" by simp
  from 1 2 show ?thesis by (intro conjI)
qed

subsection \<open>A group of which one file is missing\<close>

lemma gtop_paths_distinct:
  "DataFile (''gtop_ligands_'' @ v @ ''.tsv'') \<noteq> DataFile (''gtop_ligand_id_mapping_'' @ v @ ''.tsv'')"
  by simp

text \<open>
  Claim C1. Let the remote version resolve to \<open>v\<close>, and let exactly one of the two
  files of the group named with \<open>v\<close> exist. Then \<^verbatim>\<open>get_latest\<close> of Guide to
  Pharmacology, called with neither flag, logs one message, a warning; after the
  request that resolved the version it requests the ligands file, whichever of the
  two files was present; a failure is the failure of a fetch; and whenever it returns
  a result, it has requested both files and both files of the group hold what the
  server sent. When the server answers both requests, it does return the group.
\<close>

theorem gtop_partial_group_full_refetch:
  fixes w :: world and v :: string and scan :: scanner
  defines "ligands_path \<equiv> DataFile (''gtop_ligands_'' @ v @ ''.tsv'')"
    and "ligand_id_mapping_path \<equiv> DataFile (''gtop_ligand_id_mapping_'' @ v @ ''.tsv'')"
    and "res \<equiv> gtop_get_latest scan False False w"
  assumes version: "fst (gtop_get_latest_version w) = Inr v"
    and partial: "exists_file ligands_path w \<noteq> exists_file ligand_id_mapping_path w"
  shows "logs (snd res) =
           logs w @ [(WARNING, ''Existing files not all available -- attempting full download'')] \<and>
         (\<exists>rest. net (snd res) = net w @ [gtop_home_url, gtop_ligands_url] @ rest) \<and>
         (\<forall>e. fst res = Inl e \<longrightarrow> e = NetworkError) \<and>
         (\<forall>x. fst res = Inr x \<longrightarrow>
            x = ((ligands_path, ligand_id_mapping_path), v) \<and>
            net (snd res) = net w @ [gtop_home_url, gtop_ligands_url, gtop_ligand_id_mapping_url] \<and>
            (\<exists>r1 r2. web w gtop_ligands_url = Some r1 \<and> web w gtop_ligand_id_mapping_url = Some r2 \<and>
                     read_file ligands_path (snd res) = Some (content r1) \<and>
                     read_file ligand_id_mapping_path (snd res) = Some (content r2))) \<and>
         (\<forall>r1 r2. web w gtop_ligands_url = Some r1 \<and> \<not> bad_status r1 \<and>
                  web w gtop_ligand_id_mapping_url = Some r2 \<and> \<not> bad_status r2 \<longrightarrow>
                  fst res = Inr ((ligands_path, ligand_id_mapping_path), v))"
proof -
  define w1 where "w1 = w\<lparr>net := net w @ [gtop_home_url]\<rparr>"
  define w2 where "w2 = log_msg WARNING ''Existing files not all available -- attempting full download'' w1"
  from version gtop_get_latest_version_world [of w]
  have gv: "gtop_get_latest_version w = (Inr v, w1)"
    by (simp add: prod_eq_iff w1_def)
  have res: "res = gtop_fetch (ligands_path, ligand_id_mapping_path) v w2"
    using partial gv
    by (auto simp: res_def gtop_get_latest_def ligands_path_def ligand_id_mapping_path_def
        w1_def w2_def exists_file_net)
  have l2: "logs w2 = logs w @ [(WARNING, ''Existing files not all available -- attempting full download'')]"
    and n2: "net w2 = net w @ [gtop_home_url]" and web2: "web w2 = web w"
    by (simp_all add: w2_def w1_def log_msg_def)
  have c1: "logs (snd res) =
           logs w @ [(WARNING, ''Existing files not all available -- attempting full download'')]"
    by (simp add: res gtop_fetch_logs l2)
  have c2: "\<exists>rest. net (snd res) = net w @ [gtop_home_url, gtop_ligands_url] @ rest"
    by (simp add: res gtop_fetch_net n2)
  have c3: "\<forall>e. fst res = Inl e \<longrightarrow> e = NetworkError"
    using gtop_fetch_Inl by (simp add: res)
  have c4: "\<forall>x. fst res = Inr x \<longrightarrow>
            x = ((ligands_path, ligand_id_mapping_path), v) \<and>
            net (snd res) = net w @ [gtop_home_url, gtop_ligands_url, gtop_ligand_id_mapping_url] \<and>
            (\<exists>r1 r2. web w gtop_ligands_url = Some r1 \<and> web w gtop_ligand_id_mapping_url = Some r2 \<and>
                     read_file ligands_path (snd res) = Some (content r1) \<and>
                     read_file ligand_id_mapping_path (snd res) = Some (content r2))"
  proof (intro allI impI)
    fix x assume "fst res = Inr x"
    then have "fst (gtop_fetch (ligands_path, ligand_id_mapping_path) v w2) = Inr x" by (simp add: res)
    from gtop_fetch_Inr [OF this]
    show "x = ((ligands_path, ligand_id_mapping_path), v) \<and>
            net (snd res) = net w @ [gtop_home_url, gtop_ligands_url, gtop_ligand_id_mapping_url] \<and>
            (\<exists>r1 r2. web w gtop_ligands_url = Some r1 \<and> web w gtop_ligand_id_mapping_url = Some r2 \<and>
                     read_file ligands_path (snd res) = Some (content r1) \<and>
                     read_file ligand_id_mapping_path (snd res) = Some (content r2))"
      using gtop_paths_distinct [of v]
      by (auto simp: res n2 web2 ligands_path_def ligand_id_mapping_path_def)
  qed
  have c5: "\<forall>r1 r2. web w gtop_ligands_url = Some r1 \<and> \<not> bad_status r1 \<and>
                  web w gtop_ligand_id_mapping_url = Some r2 \<and> \<not> bad_status r2 \<longrightarrow>
                  fst res = Inr ((ligands_path, ligand_id_mapping_path), v)"
    using gtop_fetch_ok [of w2] by (simp add: res web2)
  from c1 c2 c3 c4 c5 show ?thesis by blast
qed

theorem gtop_partial_group_full_refetch_witness:
  "fst (gtop_get_latest_version gtop_partial_world) = Inr ''2023.2'' \<and>
   exists_file (DataFile ''gtop_ligands_2023.2.tsv'') gtop_partial_world \<and>
   \<not> exists_file (DataFile ''gtop_ligand_id_mapping_2023.2.tsv'') gtop_partial_world \<and>
   fst (gtop_get_latest no_scan False False gtop_partial_world) =
     Inr ((DataFile ''gtop_ligands_2023.2.tsv'', DataFile ''gtop_ligand_id_mapping_2023.2.tsv''), ''2023.2'') \<and>
   net (snd (gtop_get_latest no_scan False False gtop_partial_world)) =
     [gtop_home_url, gtop_ligands_url, gtop_ligand_id_mapping_url] \<and>
   logs (snd (gtop_get_latest no_scan False False gtop_partial_world)) =
     [(WARNING, ''Existing files not all available -- attempting full download'')] \<and>
   read_file (DataFile ''gtop_ligands_2023.2.tsv'') (snd (gtop_get_latest no_scan False False gtop_partial_world)) =
     Some (Data ''ligands'') \<and>
   read_file (DataFile ''gtop_ligand_id_mapping_2023.2.tsv'') (snd (gtop_get_latest no_scan False False gtop_partial_world)) =
     Some (Data ''mapping'')"
proof -
  have gv: "fst (gtop_get_latest_version gtop_partial_world) = Inr ''2023.2''"
    by (simp add: gtop_web_version gtop_partial_world_def world0_def)
  have e1: "exists_file (DataFile ''gtop_ligands_2023.2.tsv'') gtop_partial_world"
    and e2: "\<not> exists_file (DataFile ''gtop_ligand_id_mapping_2023.2.tsv'') gtop_partial_world"
    by (simp_all add: exists_file_def gtop_partial_world_def world0_def)
  have p: "exists_file (DataFile (''gtop_ligands_'' @ ''2023.2'' @ ''.tsv'')) gtop_partial_world \<noteq>
           exists_file (DataFile (''gtop_ligand_id_mapping_'' @ ''2023.2'' @ ''.tsv'')) gtop_partial_world"
    using e1 e2 by simp
  have web: "web gtop_partial_world gtop_ligands_url = Some (ok_response\<lparr>content := Data ''ligands''\<rparr>)"
     "web gtop_partial_world gtop_ligand_id_mapping_url = Some (ok_response\<lparr>content := Data ''mapping''\<rparr>)"
    by (simp_all add: gtop_partial_world_def world0_def gtop_web_def gtop_home_url_def
        gtop_ligands_url_def gtop_ligand_id_mapping_url_def)
  have ok: "\<not> bad_status (ok_response\<lparr>content := Data ''ligands''\<rparr>)"
      "\<not> bad_status (ok_response\<lparr>content := Data ''mapping''\<rparr>)"
    by (simp_all add: bad_status_def ok_response_def)
  have n: "net gtop_partial_world = []" "logs gtop_partial_world = []"
    by (simp_all add: gtop_partial_world_def world0_def)
  note main = gtop_partial_group_full_refetch [OF gv p, of no_scan]
  note c1 = main [THEN conjunct1]
  note c5 = main [THEN conjunct2, THEN conjunct2, THEN conjunct2, THEN conjunct2, rule_format,
                  OF conjI [OF web(1) conjI [OF ok(1) conjI [OF web(2) ok(2)]]]]
  note c4 = main [THEN conjunct2, THEN conjunct2, THEN conjunct2, THEN conjunct1, rule_format, OF c5]
  from c4 obtain r1 r2 where
    r: "web gtop_partial_world gtop_ligands_url = Some r1"
       "web gtop_partial_world gtop_ligand_id_mapping_url = Some r2"
       "read_file (DataFile (''gtop_ligands_'' @ ''2023.2'' @ ''.tsv''))
          (snd (gtop_get_latest no_scan False False gtop_partial_world)) = Some (content r1)"
       "read_file (DataFile (''gtop_ligand_id_mapping_'' @ ''2023.2'' @ ''.tsv''))
          (snd (gtop_get_latest no_scan False False gtop_partial_world)) = Some (content r2)"
    by blast
  from r(1) [symmetric] web(1) have "Some r1 = Some (ok_response\<lparr>content := Data ''ligands''\<rparr>)"
    by (rule trans)
  then have r1: "content r1 = Data ''ligands''" by (simp only: option.inject) simp
  from r(2) [symmetric] web(2) have "Some r2 = Some (ok_response\<lparr>content := Data ''mapping''\<rparr>)"
    by (rule trans)
  then have r2: "content r2 = Data ''mapping''" by (simp only: option.inject) simp
  have a: "fst (gtop_get_latest no_scan False False gtop_partial_world) =
     Inr ((DataFile ''gtop_ligands_2023.2.tsv'', DataFile ''gtop_ligand_id_mapping_2023.2.tsv''), ''2023.2'')"
    using c5 by simp
  have b: "net (snd (gtop_get_latest no_scan False False gtop_partial_world)) =
     [gtop_home_url, gtop_ligands_url, gtop_ligand_id_mapping_url]"
    using c4 [THEN conjunct2, THEN conjunct1] n(1) by simp
  have c: "logs (snd (gtop_get_latest no_scan False False gtop_partial_world)) =
     [(WARNING, ''Existing files not all available -- attempting full download'')]"
    using c1 n(2) by simp
  have d: "read_file (DataFile ''gtop_ligands_2023.2.tsv'') (snd (gtop_get_latest no_scan False False gtop_partial_world)) =
     Some (Data ''ligands'')"
    using r(3) r1 by simp
  have e: "read_file (DataFile ''gtop_ligand_id_mapping_2023.2.tsv'') (snd (gtop_get_latest no_scan False False gtop_partial_world)) =
     Some (Data ''mapping'')"
    using r(4) r2 by simp
  from gv e1 e2 a b c d e show ?thesis by (intro conjI)
qed

subsection \<open>A remote version that cannot be parsed\<close>

lemma subscript_key_missing:
  "k \<notin> fst ` set kvs \<Longrightarrow> subscript_key (JObject kvs) k = Inl KeyError"
  by (simp add: map_of_eq_None_iff [THEN iffD2])

lemma subscript_key_object_error:
  "subscript_key (JObject kvs) k = Inl e \<Longrightarrow> e = KeyError"
  by (simp split: option.splits)

lemma gtop_scan_lines_unmatched:
  "\<forall>line \<in> set r_text. contains ''Current Release Version'' line \<longrightarrow>
      gtop_release_matches (strip line) = [] \<Longrightarrow>
   gtop_scan_lines r_text = Inl RemoteDataError"
  by (induction r_text) simp_all

text \<open>
  The failures \<^verbatim>\<open>_get_latest_version\<close> does turn into \<open>RemoteDataError\<close>: an empty
  release list or a first release that lacks the version or the URL for DrugBank, a
  home page with no line that matches for Guide to Pharmacology. The world after the
  call differs by the request for the version only.
\<close>

lemma handled_unparsable_versions:
  "(web w drugbank_releases_url = Some r \<longrightarrow> \<not> bad_status r \<longrightarrow>
      (json_of r = Some (JArray []) \<or>
       (\<exists>kvs rest. json_of r = Some (JArray (JObject kvs # rest)) \<and>
                    (''version'' \<notin> fst ` set kvs \<or> ''url'' \<notin> fst ` set kvs))) \<longrightarrow>
      drugbank_get_latest handle_zip False force_refresh w =
        (Inl RemoteDataError, w\<lparr>net := net w @ [drugbank_releases_url]\<rparr>)) \<and>
   (web w gtop_home_url = Some r' \<longrightarrow> \<not> bad_status r' \<longrightarrow>
      (\<forall>line \<in> set (split_on CHR 0x0A (text_of r')).
          contains ''Current Release Version'' line \<longrightarrow> gtop_release_matches (strip line) = []) \<longrightarrow>
      gtop_get_latest scan False force_refresh w =
        (Inl RemoteDataError, w\<lparr>net := net w @ [gtop_home_url]\<rparr>))"
proof (intro conjI impI)
  assume r: "web w drugbank_releases_url = Some r" "\<not> bad_status r"
    and j: "json_of r = Some (JArray []) \<or>
       (\<exists>kvs rest. json_of r = Some (JArray (JObject kvs # rest)) \<and>
                    (''version'' \<notin> fst ` set kvs \<or> ''url'' \<notin> fst ` set kvs))"
  from j have "drugbank_parse_release r = Inl IndexError \<or> drugbank_parse_release r = Inl KeyError"
  proof
    assume "json_of r = Some (JArray [])"
    then show ?thesis by (simp add: drugbank_parse_release_def)
  next
    assume "\<exists>kvs rest. json_of r = Some (JArray (JObject kvs # rest)) \<and>
                    (''version'' \<notin> fst ` set kvs \<or> ''url'' \<notin> fst ` set kvs)"
    then obtain kvs rest where k: "json_of r = Some (JArray (JObject kvs # rest))"
      "''version'' \<notin> fst ` set kvs \<or> ''url'' \<notin> fst ` set kvs" by blast
    from k(2) have "drugbank_parse_release r = Inl KeyError"
      using subscript_key_missing [of "''version''" kvs] subscript_key_missing [of "''url''" kvs]
        subscript_key_object_error [of kvs "''version''"]
      by (auto simp: drugbank_parse_release_def k(1) simp del: subscript_key.simps split: sum.splits)
    then show ?thesis by simp
  qed
  then have "drugbank_get_latest_version w = (Inl RemoteDataError, w\<lparr>net := net w @ [drugbank_releases_url]\<rparr>)"
    using r by (auto simp: drugbank_get_latest_version_def requests_get_def)
  then show "drugbank_get_latest handle_zip False force_refresh w =
        (Inl RemoteDataError, w\<lparr>net := net w @ [drugbank_releases_url]\<rparr>)"
    by (simp add: drugbank_get_latest_def)
next
  assume r: "web w gtop_home_url = Some r'" "\<not> bad_status r'"
    and l: "\<forall>line \<in> set (split_on CHR 0x0A (text_of r')).
          contains ''Current Release Version'' line \<longrightarrow> gtop_release_matches (strip line) = []"
  from gtop_scan_lines_unmatched [OF l] r
  have "gtop_get_latest_version w = (Inl RemoteDataError, w\<lparr>net := net w @ [gtop_home_url]\<rparr>)"
    by (simp add: gtop_get_latest_version_def requests_get_def)
  then show "gtop_get_latest scan False force_refresh w =
        (Inl RemoteDataError, w\<lparr>net := net w @ [gtop_home_url]\<rparr>)"
    by (simp add: gtop_get_latest_def)
qed

lemma drugbank_not_json_eval:
  "drugbank_get_latest no_handler False False drugbank_not_json_world =
     (Inl JSONDecodeError, drugbank_not_json_world\<lparr>net := [drugbank_releases_url]\<rparr>)"
  by (simp add: drugbank_get_latest_def drugbank_get_latest_version_def requests_get_def
      drugbank_not_json_world_def drugbank_cached_world_def world0_def ok_response_def
      bad_status_def drugbank_parse_release_def)

lemma drugbank_string_release_eval:
  "drugbank_get_latest no_handler False False drugbank_string_release_world =
     (Inl TypeError, drugbank_string_release_world\<lparr>net := [drugbank_releases_url]\<rparr>)"
  by (simp add: drugbank_get_latest_def drugbank_get_latest_version_def requests_get_def
      drugbank_string_release_world_def drugbank_cached_world_def world0_def ok_response_def
      bad_status_def drugbank_parse_release_def)

lemma drugbank_null_version_eval:
  "net (snd (drugbank_get_latest no_handler False False drugbank_null_version_world)) =
     [drugbank_releases_url, ''None/downloads/all-drugbank-vocabulary'']"
  by (simp add: drugbank_get_latest_def drugbank_get_latest_version_def requests_get_def
      drugbank_null_version_world_def drugbank_cached_world_def world0_def ok_response_def
      bad_status_def drugbank_parse_release_def py_str_def exists_file_def
      drugbank_download_data_def download_http_def drugbank_releases_url_def)

lemma drugbank_empty_releases_eval:
  "drugbank_get_latest no_handler False False drugbank_empty_releases_world =
     (Inl RemoteDataError, drugbank_empty_releases_world\<lparr>net := [drugbank_releases_url]\<rparr>)"
  by (simp add: drugbank_get_latest_def drugbank_get_latest_version_def requests_get_def
      drugbank_empty_releases_world_def drugbank_cached_world_def world0_def ok_response_def
      bad_status_def drugbank_parse_release_def)

lemma rxnorm_not_json_eval:
  "rxnorm_get_latest_version [] rxnorm_not_json_world =
     (Inl RemoteDataError, rxnorm_not_json_world\<lparr>net := [rxnorm_version_url]\<rparr>)"
  by (simp add: rxnorm_get_latest_version_def requests_get_def rxnorm_not_json_world_def
      world0_def ok_response_def bad_status_def rxnorm_parse_version_def)

text \<open>
  Claim C6. The docstring of \<^verbatim>\<open>_get_latest_version\<close> of DrugBank promises
  \<open>RemoteDataError\<close> when the version cannot be parsed from the answer, and an empty
  release list does give it. But the \<^verbatim>\<open>except\<close> clause names \<open>KeyError\<close> and
  \<open>IndexError\<close> only: when the body of the answer is not JSON, \<^verbatim>\<open>get_latest\<close> raises
  the error of the decoder, and when the first release is a string and no
  dictionary, it raises \<open>TypeError\<close>; in both cases it has made the request for the
  version and nothing else. When the version of the first release is null, nothing
  is raised there, and \<^verbatim>\<open>get_latest\<close> goes on to request a download built from the
  text \<^verbatim>\<open>None\<close>. \<^verbatim>\<open>_get_latest_version\<close> of RxNorm, whose \<^verbatim>\<open>except\<close> clause names
  \<open>ValueError\<close>, does raise \<open>RemoteDataError\<close> on a body that is not JSON.
\<close>

theorem drugbank_unparsable_response_not_RemoteDataError:
  "drugbank_get_latest no_handler False False drugbank_not_json_world =
     (Inl JSONDecodeError, drugbank_not_json_world\<lparr>net := [drugbank_releases_url]\<rparr>) \<and>
   drugbank_get_latest no_handler False False drugbank_string_release_world =
     (Inl TypeError, drugbank_string_release_world\<lparr>net := [drugbank_releases_url]\<rparr>) \<and>
   net (snd (drugbank_get_latest no_handler False False drugbank_null_version_world)) =
     [drugbank_releases_url, ''None/downloads/all-drugbank-vocabulary''] \<and>
   drugbank_get_latest no_handler False False drugbank_empty_releases_world =
     (Inl RemoteDataError, drugbank_empty_releases_world\<lparr>net := [drugbank_releases_url]\<rparr>) \<and>
   rxnorm_get_latest_version [] rxnorm_not_json_world =
     (Inl RemoteDataError, rxnorm_not_json_world\<lparr>net := [rxnorm_version_url]\<rparr>)"
  using drugbank_not_json_eval drugbank_string_release_eval drugbank_null_version_eval
    drugbank_empty_releases_eval rxnorm_not_json_eval
  by (intro conjI)

subsection \<open>The latest local file of DrugBank\<close>

lemma glob_log_msg: "glob pat (log_msg l m w) = glob pat w"
  by (simp add: glob_def data_files_def log_msg_def)

lemma drugbank_get_latest_local_file_world:
  "net (snd (drugbank_get_latest_local_file pat w)) = net w \<and>
   fs (snd (drugbank_get_latest_local_file pat w)) = fs w"
  by (simp add: drugbank_get_latest_local_file_def Let_def log_msg_def split: sum.splits)

lemma drugbank_get_latest_local_file_empty:
  "glob pat w = [] \<Longrightarrow> fst (drugbank_get_latest_local_file pat w) = Inl FileNotFoundError"
  by (simp add: drugbank_get_latest_local_file_def Let_def glob_log_msg)

lemma file_version_pairs_5_1_10:
  "file_version_pairs [''drugbank_5.1.10.csv''] = Inr [(''drugbank_5.1.10.csv'', ''5.1.10'', [5, 1, 10])]"
  by code_simp

lemma glob_world0: "glob ''drugbank_*.csv'' world0 = []"
  by (simp add: glob_def data_files_def world0_def)

lemma glob_drugbank_cached_world: "glob ''drugbank_*.csv'' drugbank_cached_world = [''drugbank_5.1.10.csv'']"
  by code_simp

subsection \<open>The order of versions\<close>

lemma sorted_le_last: "sorted xs \<Longrightarrow> x \<in> set xs \<Longrightarrow> x \<le> last xs"
  by (induction xs) auto

lemma file_version_pairs_Inr:
  "file_version_pairs files = Inr ps \<Longrightarrow>
   map fst ps = files \<and>
   (\<forall>p \<in> set ps. parse_file_version (fst p) drugbank_pattern = Inr (fst (snd p)) \<and>
                  formatted_version (fst (snd p)) = Inr (snd (snd p)))"
  by (induction files arbitrary: ps) (auto split: sum.splits)

lemma file_version_pairs_total:
  "\<forall>g \<in> set files. \<exists>vg kg. parse_file_version g drugbank_pattern = Inr vg \<and>
                                  formatted_version vg = Inr kg \<Longrightarrow>
   \<exists>ps. file_version_pairs files = Inr ps \<and> length ps = length files"
  by (induction files) auto

lemma last_sort_key_greatest:
  assumes "ps \<noteq> []"
  shows "last (sort_key f ps) \<in> set ps \<and> (\<forall>p \<in> set ps. f p \<le> f (last (sort_key f ps)))"
proof -
  have ne: "sort_key f ps \<noteq> []" using assms by (metis length_sort length_0_conv)
  then have "last (sort_key f ps) \<in> set (sort_key f ps)" by (rule last_in_set)
  then have m: "last (sort_key f ps) \<in> set ps" by simp
  have "\<forall>p \<in> set ps. f p \<le> f (last (sort_key f ps))"
  proof
    fix p assume "p \<in> set ps"
    then have "f p \<in> set (map f (sort_key f ps))" by simp
    from sorted_le_last [OF sorted_sort_key this]
    show "f p \<le> f (last (sort_key f ps))" by (simp add: last_map ne)
  qed
  with m show ?thesis by simp
qed

lemma three_versions_latest:
  "fst (drugbank_get_latest_local_file ''drugbank_*.csv'' drugbank_three_versions_world) =
     Inr (DataFile ''drugbank_2.10.csv'', ''2.10'')"
  by code_simp

lemma string_order_2_10: "(''2.10'' :: string) < ''2.3''"
  by code_simp


lemma glob_three_versions:
  "glob ''drugbank_*.csv'' drugbank_three_versions_world =
     [''drugbank_2.3.csv'', ''drugbank_2.10.csv'', ''drugbank_1.0.csv'']"
  by code_simp


subsection \<open>DrugBank from the local cache\<close>

text \<open>What the scan returns, and when it returns.\<close>

lemma drugbank_get_latest_local_file_Inr:
  assumes r: "fst (drugbank_get_latest_local_file pat w) = Inr (p, v)"
  shows "\<exists>f k. p = DataFile f \<and> f \<in> set (glob pat w) \<and>
                parse_file_version f drugbank_pattern = Inr v \<and>
                formatted_version v = Inr k \<and>
                (\<forall>g \<in> set (glob pat w). \<exists>vg kg.
                    parse_file_version g drugbank_pattern = Inr vg \<and>
                    formatted_version vg = Inr kg \<and> kg \<le> k)"
proof -
  from r obtain ps where ps: "file_version_pairs (glob pat w) = Inr ps"
    by (auto simp: drugbank_get_latest_local_file_def Let_def glob_log_msg split: sum.splits)
  with r have ne: "ps \<noteq> []"
    and p: "p = DataFile (fst (last (sort_key (\<lambda>p. snd (snd p)) ps)))"
    and v: "v = fst (snd (last (sort_key (\<lambda>p. snd (snd p)) ps)))"
    by (auto simp: drugbank_get_latest_local_file_def Let_def glob_log_msg split: if_splits)
  define latest where "latest = last (sort_key (\<lambda>p. snd (snd p)) ps)"
  from last_sort_key_greatest [OF ne, of "\<lambda>p. snd (snd p)"]
  have mem: "latest \<in> set ps" and mx: "\<forall>q \<in> set ps. snd (snd q) \<le> snd (snd latest)"
    by (simp_all add: latest_def)
  from file_version_pairs_Inr [OF ps]
  have files: "map fst ps = glob pat w"
    and ok: "\<forall>q \<in> set ps. parse_file_version (fst q) drugbank_pattern = Inr (fst (snd q)) \<and>
                  formatted_version (fst (snd q)) = Inr (snd (snd q))" by simp_all
  have in_glob: "fst latest \<in> set (glob pat w)"
    using mem files by (metis image_eqI set_map)
  have all: "\<forall>g \<in> set (glob pat w). \<exists>vg kg.
                    parse_file_version g drugbank_pattern = Inr vg \<and>
                    formatted_version vg = Inr kg \<and> kg \<le> snd (snd latest)"
  proof
    fix g assume "g \<in> set (glob pat w)"
    then obtain q where q: "q \<in> set ps" "g = fst q" using files by (metis imageE set_map)
    with ok mx show "\<exists>vg kg. parse_file_version g drugbank_pattern = Inr vg \<and>
                    formatted_version vg = Inr kg \<and> kg \<le> snd (snd latest)" by blast
  qed
  show ?thesis
    using p v in_glob all ok mem unfolding latest_def [symmetric]
    by (intro exI [of _ "fst latest"] exI [of _ "snd (snd latest)"]) simp
qed

lemma drugbank_get_latest_local_file_total:
  assumes ne: "glob pat w \<noteq> []"
    and ok: "\<forall>g \<in> set (glob pat w). \<exists>vg kg. parse_file_version g drugbank_pattern = Inr vg \<and>
                                           formatted_version vg = Inr kg"
  shows "\<exists>p v. fst (drugbank_get_latest_local_file pat w) = Inr (p, v)"
proof -
  from file_version_pairs_total [OF ok] obtain ps
    where ps: "file_version_pairs (glob pat w) = Inr ps" "length ps = length (glob pat w)" by blast
  from ne ps(2) have "sort_key (\<lambda>p. snd (snd p)) ps \<noteq> []"
    by (metis length_sort length_0_conv)
  with ps show ?thesis
    by (simp add: drugbank_get_latest_local_file_def Let_def glob_log_msg)
qed

lemma drugbank_get_latest_from_local_eq:
  "fst (drugbank_get_latest handle_zip True False w) =
     (case fst (drugbank_get_latest_local_file ''drugbank_*.csv'' w) of
        Inl e \<Rightarrow> Inl e | Inr pv \<Rightarrow> Inr (fst pv, JString (snd pv))) \<and>
   snd (drugbank_get_latest handle_zip True False w) =
     snd (drugbank_get_latest_local_file ''drugbank_*.csv'' w)"
  by (simp add: drugbank_get_latest_def split: prod.splits sum.splits)

lemma glob_stray_file:
  "glob ''drugbank_*.csv'' drugbank_stray_file_world = [''drugbank_5.1.10.csv'', ''drugbank_notes.csv'']"
  by code_simp

lemma glob_empty_piece:
  "glob ''drugbank_*.csv'' drugbank_empty_piece_world = [''drugbank_5.1.10.csv'', ''drugbank_5..1.csv'']"
  by code_simp

lemma stray_file_scan:
  "fst (drugbank_get_latest_local_file ''drugbank_*.csv'' drugbank_stray_file_world) = Inl ParseError"
  by code_simp

lemma empty_piece_scan:
  "fst (drugbank_get_latest_local_file ''drugbank_*.csv'' drugbank_empty_piece_world) = Inl ValueError"
  by code_simp




subsection \<open>The local files of Guide to Pharmacology\<close>

text \<open>
  Claim C9. Called with \<open>from_local\<close> alone, \<^verbatim>\<open>get_latest\<close> of Guide to Pharmacology
  returns the file the scan yields for the glob of the ligands and the file the scan
  yields for the glob of the mapping, with the version read from the name of the
  ligands file; nothing relates the mapping file to that version. So the call
  succeeds on a cache whose latest ligands and latest mapping are of different
  releases, and labels the pair with the release of the ligands.
\<close>

theorem gtop_from_local_members_independent:
  assumes "scan ''gtop_ligands_*.tsv'' w = (Inr ligands, w1)"
    and "scan ''gtop_ligand_id_mapping_*.tsv'' w1 = (Inr mapping, w2)"
    and "parse_file_version ligands gtop_ligands_pattern = Inr v"
  shows "gtop_get_latest scan True False w = (Inr ((DataFile ligands, DataFile mapping), v), w2)"
  using assms by (simp add: gtop_get_latest_def)

lemma LocalCacheScanner_latest_world: "snd (LocalCacheScanner_latest vp pat w) = w"
  by (simp add: LocalCacheScanner_latest_def split: list.splits)

lemma gtop_scan_ligands_name:
  "fst (gtop_scan ''gtop_ligands_*.tsv'' gtop_mixed_versions_world) = Inr ''gtop_ligands_2023.2.tsv''"
  by code_simp

lemma gtop_scan_mapping_name:
  "fst (gtop_scan ''gtop_ligand_id_mapping_*.tsv'' gtop_mixed_versions_world) =
     Inr ''gtop_ligand_id_mapping_2023.1.tsv''"
  by code_simp

lemma gtop_scan_ligands:
  "gtop_scan ''gtop_ligands_*.tsv'' gtop_mixed_versions_world =
     (Inr ''gtop_ligands_2023.2.tsv'', gtop_mixed_versions_world)"
  using gtop_scan_ligands_name
  by (simp add: prod_eq_iff gtop_scan_def LocalCacheScanner_latest_world)

lemma gtop_scan_mapping:
  "gtop_scan ''gtop_ligand_id_mapping_*.tsv'' gtop_mixed_versions_world =
     (Inr ''gtop_ligand_id_mapping_2023.1.tsv'', gtop_mixed_versions_world)"
  using gtop_scan_mapping_name
  by (simp add: prod_eq_iff gtop_scan_def LocalCacheScanner_latest_world)

lemma gtop_parse_ligands: "parse_file_version ''gtop_ligands_2023.2.tsv'' gtop_ligands_pattern = Inr ''2023.2''"
  by code_simp

lemma gtop_parse_mapping:
  "parse_file_version ''gtop_ligand_id_mapping_2023.1.tsv'' gtop_ligand_id_mapping_pattern = Inr ''2023.1''"
  by code_simp

theorem gtop_from_local_members_independent_witness:
  "gtop_get_latest gtop_scan True False gtop_mixed_versions_world =
     (Inr ((DataFile ''gtop_ligands_2023.2.tsv'', DataFile ''gtop_ligand_id_mapping_2023.1.tsv''), ''2023.2''),
      gtop_mixed_versions_world) \<and>
   parse_file_version ''gtop_ligand_id_mapping_2023.1.tsv'' gtop_ligand_id_mapping_pattern = Inr ''2023.1''"
  using gtop_from_local_members_independent [where scan = gtop_scan,
      OF gtop_scan_ligands gtop_scan_mapping gtop_parse_ligands]
    gtop_parse_mapping
  by (intro conjI)

subsection \<open>The ZIP handler of RxNorm\<close>

text \<open>
  Claim C7. On a downloaded archive with no member \<^verbatim>\<open>rrf/RXNCONSO.RRF\<close> the handler
  raises \<open>RemoteDataError\<close> and writes no destination, but it leaves the world as it
  found it: the temporary file is still there. On an archive that has the member,
  the same handler writes the destination and removes the temporary file.
\<close>

theorem rxnorm_zip_handler_missing_member_keeps_download:
  "rxnorm_zip_handler TempFile (DataFile ''rxnorm_20240304.RRF'') rxnorm_missing_member_world =
     (Inl RemoteDataError, rxnorm_missing_member_world) \<and>
   exists_file TempFile rxnorm_missing_member_world \<and>
   \<not> exists_file (DataFile ''rxnorm_20240304.RRF'') rxnorm_missing_member_world \<and>
   fst (rxnorm_zip_handler TempFile (DataFile ''rxnorm_20240304.RRF'') rxnorm_full_archive_world) = Inr () \<and>
   fs (snd (rxnorm_zip_handler TempFile (DataFile ''rxnorm_20240304.RRF'') rxnorm_full_archive_world)) =
     [(DataFile ''rxnorm_20240304.RRF'', Data ''concepts'')]"
  by (simp add: rxnorm_zip_handler_def rxnorm_missing_member_world_def rxnorm_full_archive_world_def
      world0_def read_file_def exists_file_def write_file_def remove_file_def)

subsection \<open>Date versions of RxNorm\<close>

lemma digit_char_less: "a < 10 \<Longrightarrow> b < 10 \<Longrightarrow> (digit_char a < digit_char b) = (a < b)"
  by (simp add: digit_char_def less_char_def)

lemma digit_char_eq: "a < 10 \<Longrightarrow> b < 10 \<Longrightarrow> (digit_char a = digit_char b) = (a = b)"
proof
  assume a: "a < 10" and b: "b < 10" and e: "digit_char a = digit_char b"
  from e have "(of_char (digit_char a) :: nat) = of_char (digit_char b)" by simp
  with a b show "a = b" by (simp add: digit_char_def)
qed simp

lemma decimal_split:
  fixes q1 r1 q2 r2 :: nat
  assumes "r1 < 10" "r2 < 10"
  shows "(10 * q1 + r1 < 10 * q2 + r2) = (q1 < q2 \<or> q1 = q2 \<and> r1 < r2)"
    and "(10 * q1 + r1 = 10 * q2 + r2) = (q1 = q2 \<and> r1 = r2)"
  using assms by arith+

lemma less_by_digits:
  "((n::nat) < m) = (n div 10 < m div 10 \<or> n div 10 = m div 10 \<and> n mod 10 < m mod 10)"
proof -
  have "(10 * (n div 10) + n mod 10 < 10 * (m div 10) + m mod 10) =
        (n div 10 < m div 10 \<or> n div 10 = m div 10 \<and> n mod 10 < m mod 10)"
    by (rule decimal_split) simp_all
  then show ?thesis by simp
qed

lemma eq_by_digits:
  "((n::nat) = m) = (n div 10 = m div 10 \<and> n mod 10 = m mod 10)"
proof -
  have "(10 * (n div 10) + n mod 10 = 10 * (m div 10) + m mod 10) =
        (n div 10 = m div 10 \<and> n mod 10 = m mod 10)"
    by (rule decimal_split) simp_all
  then show ?thesis by simp
qed

lemma length_pad: "length (pad k n) = k"
  by (induction k arbitrary: n) simp_all

lemma append_less_same_length:
  fixes xs ys :: "'a::linorder list"
  shows "length xs = length ys \<Longrightarrow> (xs @ us < ys @ vs) = (xs < ys \<or> xs = ys \<and> us < vs)"
  by (induction xs ys rule: list_induct2) auto

lemma append_less_same_prefix:
  fixes xs :: "'a::linorder list"
  shows "(xs @ us < xs @ vs) = (us < vs)"
  by (simp add: append_less_same_length)

text \<open>Numbers filled to the same width are ordered as their digit strings are.\<close>

lemma pad_order:
  "n < 10 ^ k \<Longrightarrow> m < 10 ^ k \<Longrightarrow>
   (pad k n < pad k m) = (n < m) \<and> (pad k n = pad k m) = (n = m)"
proof (induction k arbitrary: n m)
  case 0
  then show ?case by simp
next
  case (Suc k)
  from Suc.prems have d: "n div 10 < 10 ^ k" "m div 10 < 10 ^ k" by simp_all
  note ih = Suc.IH [OF d]
  have r: "n mod 10 < 10" "m mod 10 < 10" by simp_all
  have 1: "(pad (Suc k) n < pad (Suc k) m) =
           (n div 10 < m div 10 \<or> n div 10 = m div 10 \<and> n mod 10 < m mod 10)"
    using ih digit_char_less [OF r] by (simp add: append_less_same_length length_pad)
  have 2: "(pad (Suc k) n = pad (Suc k) m) = (n div 10 = m div 10 \<and> n mod 10 = m mod 10)"
    using ih digit_char_eq [OF r] by simp
  from 1 2 show ?case
    using less_by_digits [of n m] eq_by_digits [of n m] by blast
qed

lemma concat_map_Chr: "concat (map ((\<lambda>x. strftime_dir x dt) \<circ> Chr) sep) = sep"
  by (induction sep) simp_all

lemma strftime_DATE_VERSION_PATTERN:
  "strftime (DATE_VERSION_PATTERN sep) dt =
     show_nat (year dt) @ sep @ pad 2 (month dt) @ sep @ pad 2 (day dt)"
  by (simp add: strftime_def DATE_VERSION_PATTERN_def concat_map_Chr del: pad.simps)

text \<open>A number of four digits is printed as it is filled to four digits.\<close>

lemma show_nat_digit: "n < 10 \<Longrightarrow> show_nat n = [digit_char n]"
  by (subst show_nat.simps) simp

lemma show_nat_step: "10 \<le> n \<Longrightarrow> show_nat n = show_nat (n div 10) @ [digit_char (n mod 10)]"
  by (subst show_nat.simps) simp

lemma pad_4: "pad 4 n = [digit_char (n div 10 div 10 div 10 mod 10), digit_char (n div 10 div 10 mod 10),
                     digit_char (n div 10 mod 10), digit_char (n mod 10)]"
proof -
  have "pad (Suc (Suc (Suc (Suc 0)))) n = [digit_char (n div 10 div 10 div 10 mod 10), digit_char (n div 10 div 10 mod 10),
                     digit_char (n div 10 mod 10), digit_char (n mod 10)]"
    by (simp only: pad.simps append_Nil append_Cons)
  moreover have "(4::nat) = Suc (Suc (Suc (Suc 0)))" by simp
  ultimately show ?thesis by (simp only:)
qed

lemma show_nat_four_digits:
  assumes "1000 \<le> n" and "n < 10000"
  shows "show_nat n = pad 4 n"
proof -
  have d: "n div 10 div 10 div 10 < 10" "10 \<le> n div 10 div 10" "10 \<le> n div 10" "10 \<le> n"
    using assms by simp_all
  have s: "show_nat n = [digit_char (n div 10 div 10 div 10), digit_char (n div 10 div 10 mod 10),
                     digit_char (n div 10 mod 10), digit_char (n mod 10)]"
    by (simp only: show_nat_step [OF d(4)] show_nat_step [OF d(3)] show_nat_step [OF d(2)]
        show_nat_digit [OF d(1)] append_Cons append_Nil)
  have m: "n div 10 div 10 div 10 mod 10 = n div 10 div 10 div 10" using d(1) by simp
  show ?thesis by (simp only: s pad_4 m)
qed

lemma valid_date_bounds:
  "valid_date dt \<Longrightarrow> year dt < 10 ^ 4 \<and> month dt < 10 ^ 2 \<and> day dt < 10 ^ 2"
  by (auto simp: valid_date_def days_in_month_def split: if_splits)

lemma strftime_four_digit_year:
  assumes "valid_date dt" and "1000 \<le> year dt"
  shows "strftime (DATE_VERSION_PATTERN sep) dt =
           pad 4 (year dt) @ sep @ pad 2 (month dt) @ sep @ pad 2 (day dt)"
proof -
  from assms(1) have "year dt < 10000" by (simp add: valid_date_def)
  from show_nat_four_digits [OF assms(2) this] show ?thesis
    by (simp only: strftime_DATE_VERSION_PATTERN)
qed

lemma date_version_order:
  assumes "valid_date a" and "valid_date b" and "1000 \<le> year a" and "1000 \<le> year b"
  shows "(strftime (DATE_VERSION_PATTERN sep) a < strftime (DATE_VERSION_PATTERN sep) b) = date_less a b"
proof -
  note ba = valid_date_bounds [OF assms(1)] and bb = valid_date_bounds [OF assms(2)]
  note y = pad_order [of "year a" 4 "year b"] and m = pad_order [of "month a" 2 "month b"]
    and d = pad_order [of "day a" 2 "day b"]
  have "(strftime (DATE_VERSION_PATTERN sep) a < strftime (DATE_VERSION_PATTERN sep) b) =
        (pad 4 (year a) < pad 4 (year b) \<or> pad 4 (year a) = pad 4 (year b) \<and>
           (pad 2 (month a) < pad 2 (month b) \<or> pad 2 (month a) = pad 2 (month b) \<and>
              pad 2 (day a) < pad 2 (day b)))"
    by (simp only: strftime_four_digit_year [OF assms(1,3)] strftime_four_digit_year [OF assms(2,4)]
        append_less_same_length length_pad append_less_same_prefix)
  also have "\<dots> = date_less a b"
    using y m d ba bb unfolding date_less_def by blast
  finally show ?thesis .
qed

lemma strptime_error: "strptime s fmt = Inl e \<Longrightarrow> e = ValueError"
  by (auto simp: strptime_def split: list.splits if_splits)

lemma strptime_valid: "strptime s fmt = Inr dt \<Longrightarrow> valid_date dt"
  by (auto simp: strptime_def split: list.splits if_splits)

lemma rxnorm_get_latest_version_world:
  "snd (rxnorm_get_latest_version sep w) = w\<lparr>net := net w @ [rxnorm_version_url]\<rparr>"
  by (simp add: rxnorm_get_latest_version_def requests_get_def split: option.splits sum.splits)

lemma rxnorm_get_latest_version_Inr:
  assumes "fst (rxnorm_get_latest_version sep w) = Inr v"
  shows "\<exists>r j raw dt. web w rxnorm_version_url = Some r \<and> json_of r = Some j \<and>
           subscript_key j ''version'' = Inr (JString raw) \<and>
           strptime raw [Pct_d, Chr CHR ''-'', Pct_b, Chr CHR ''-'', Pct_Y] = Inr dt \<and>
           v = strftime (DATE_VERSION_PATTERN sep) dt"
  using assms
  by (auto simp: rxnorm_get_latest_version_def requests_get_def rxnorm_parse_version_def
      split: option.splits sum.splits if_splits json.splits)

lemma rxnorm_get_latest_version_parsed:
  assumes "web w rxnorm_version_url = Some r" and "\<not> bad_status r" and "json_of r = Some j"
    and "subscript_key j ''version'' = Inr (JString raw)"
    and "strptime raw [Pct_d, Chr CHR ''-'', Pct_b, Chr CHR ''-'', Pct_Y] = Inr dt"
  shows "fst (rxnorm_get_latest_version sep w) = Inr (strftime (DATE_VERSION_PATTERN sep) dt)"
  using assms
  by (simp add: rxnorm_get_latest_version_def requests_get_def rxnorm_parse_version_def)

lemma rxnorm_get_latest_version_malformed:
  assumes "web w rxnorm_version_url = Some r" and "\<not> bad_status r" and "json_of r = Some j"
    and "subscript_key j ''version'' = Inr (JString raw)"
    and "strptime raw [Pct_d, Chr CHR ''-'', Pct_b, Chr CHR ''-'', Pct_Y] = Inl e"
  shows "rxnorm_get_latest_version sep w =
           (Inl RemoteDataError, w\<lparr>net := net w @ [rxnorm_version_url]\<rparr>)"
  using assms strptime_error [OF assms(5)]
  by (simp add: rxnorm_get_latest_version_def requests_get_def rxnorm_parse_version_def)

lemma strptime_4_Mar_2024:
  "strptime ''04-Mar-2024'' [Pct_d, Chr CHR ''-'', Pct_b, Chr CHR ''-'', Pct_Y] = Inr (Date 2024 3 4)"
  by code_simp

lemma strptime_4_Mar_0999:
  "strptime ''04-Mar-0999'' [Pct_d, Chr CHR ''-'', Pct_b, Chr CHR ''-'', Pct_Y] = Inr (Date 999 3 4)"
  by code_simp

lemma strptime_iso_date:
  "strptime ''2024-03-04'' [Pct_d, Chr CHR ''-'', Pct_b, Chr CHR ''-'', Pct_Y] = Inl ValueError"
  by code_simp

lemma strptime_31_Feb:
  "strptime ''31-Feb-2024'' [Pct_d, Chr CHR ''-'', Pct_b, Chr CHR ''-'', Pct_Y] = Inl ValueError"
  by code_simp

lemma rxnorm_world_response:
  "web (rxnorm_world raw) rxnorm_version_url =
     Some (ok_response\<lparr>json_of := Some (JObject [(''version'', JString raw)])\<rparr>) \<and>
   \<not> bad_status (ok_response\<lparr>json_of := Some (JObject [(''version'', JString raw)])\<rparr>) \<and>
   json_of (ok_response\<lparr>json_of := Some (JObject [(''version'', JString raw)])\<rparr>) =
     Some (JObject [(''version'', JString raw)]) \<and>
   subscript_key (JObject [(''version'', JString raw)]) ''version'' = Inr (JString raw) \<and>
   net (rxnorm_world raw) = []"
  by (simp add: rxnorm_world_def world0_def ok_response_def bad_status_def)

lemma rxnorm_world_version:
  "strptime raw [Pct_d, Chr CHR ''-'', Pct_b, Chr CHR ''-'', Pct_Y] = Inr dt \<Longrightarrow>
   fst (rxnorm_get_latest_version sep (rxnorm_world raw)) = Inr (strftime (DATE_VERSION_PATTERN sep) dt)"
  by (rule rxnorm_get_latest_version_parsed [OF
        rxnorm_world_response [THEN conjunct1]
        rxnorm_world_response [THEN conjunct2, THEN conjunct1]
        rxnorm_world_response [THEN conjunct2, THEN conjunct2, THEN conjunct1]
        rxnorm_world_response [THEN conjunct2, THEN conjunct2, THEN conjunct2, THEN conjunct1]])

lemma strftime_999: "strftime (DATE_VERSION_PATTERN []) (Date 999 3 4) = ''9990304''"
  and strftime_999_dash: "strftime (DATE_VERSION_PATTERN ''-'') (Date 999 3 4) = ''999-03-04''"
  and strftime_2024: "strftime (DATE_VERSION_PATTERN []) (Date 2024 3 4) = ''20240304''"
  and strftime_2024_dash: "strftime (DATE_VERSION_PATTERN ''-'') (Date 2024 3 4) = ''2024-03-04''"
  by code_simp+




subsection \<open>The API key of RxNorm\<close>

lemma rxnorm_download_data_no_key:
  "map_of (environ w) ''UMLS_API_KEY'' = None \<Longrightarrow>
   rxnorm_download_data sep version file_path w =
     (Inl RemoteDataError, log_msg ERROR ''Could not find `UMLS_API_KEY` in environment variables.'' w)"
  by (simp add: rxnorm_download_data_def)

text \<open>
  Claim C10. When the environment has no \<^verbatim>\<open>UMLS_API_KEY\<close>, \<^verbatim>\<open>_download_data\<close> of
  RxNorm raises \<open>RemoteDataError\<close> whatever the version and the destination are; the
  world after the call differs from the world before by one logged error, so no
  request has been made and no file written. Hence \<^verbatim>\<open>get_latest\<close>, once it has
  resolved the version and has to download (a refresh is forced, or the file of that
  version is not in the cache), raises \<open>RemoteDataError\<close> in such an environment,
  having made the request for the version only.
\<close>

theorem rxnorm_download_data_needs_api_key:
  "(map_of (environ w) ''UMLS_API_KEY'' = None \<longrightarrow>
      rxnorm_download_data sep version file_path w =
        (Inl RemoteDataError,
         log_msg ERROR ''Could not find `UMLS_API_KEY` in environment variables.'' w)) \<and>
   (map_of (environ w) ''UMLS_API_KEY'' = None \<longrightarrow>
    fst (rxnorm_get_latest_version sep w) = Inr v \<longrightarrow>
    (force_refresh \<or> \<not> exists_file (DataFile (''rxnorm_'' @ v @ ''.RRF'')) w) \<longrightarrow>
      rxnorm_get_latest sep latest_local False force_refresh w =
        (Inl RemoteDataError,
         log_msg ERROR ''Could not find `UMLS_API_KEY` in environment variables.''
           (w\<lparr>net := net w @ [rxnorm_version_url]\<rparr>)))"
proof (intro conjI impI)
  assume "map_of (environ w) ''UMLS_API_KEY'' = None"
  then show "rxnorm_download_data sep version file_path w =
        (Inl RemoteDataError,
         log_msg ERROR ''Could not find `UMLS_API_KEY` in environment variables.'' w)"
    by (rule rxnorm_download_data_no_key)
next
  assume k: "map_of (environ w) ''UMLS_API_KEY'' = None"
    and v: "fst (rxnorm_get_latest_version sep w) = Inr v"
    and d: "force_refresh \<or> \<not> exists_file (DataFile (''rxnorm_'' @ v @ ''.RRF'')) w"
  define w1 where "w1 = w\<lparr>net := net w @ [rxnorm_version_url]\<rparr>"
  from v rxnorm_get_latest_version_world [of sep w]
  have gv: "rxnorm_get_latest_version sep w = (Inr v, w1)"
    by (simp add: prod_eq_iff w1_def)
  have k1: "map_of (environ w1) ''UMLS_API_KEY'' = None" using k by (simp add: w1_def)
  have e1: "exists_file (DataFile (''rxnorm_'' @ v @ ''.RRF'')) w1 =
            exists_file (DataFile (''rxnorm_'' @ v @ ''.RRF'')) w"
    by (simp add: w1_def exists_file_net)
  show "rxnorm_get_latest sep latest_local False force_refresh w =
        (Inl RemoteDataError,
         log_msg ERROR ''Could not find `UMLS_API_KEY` in environment variables.''
           (w\<lparr>net := net w @ [rxnorm_version_url]\<rparr>))"
    using d gv e1 rxnorm_download_data_no_key [OF k1, of sep v "DataFile (''rxnorm_'' @ v @ ''.RRF'')"]
    unfolding w1_def [symmetric]
    by (auto simp: rxnorm_get_latest_def DataSource_get_latest_def)
qed

theorem rxnorm_download_data_needs_api_key_witness:
  "map_of (environ (rxnorm_world ''04-Mar-2024'')) ''UMLS_API_KEY'' = None \<and>
   rxnorm_download_data [] ''20240304'' (DataFile ''rxnorm_20240304.RRF'') (rxnorm_world ''04-Mar-2024'') =
     (Inl RemoteDataError,
      log_msg ERROR ''Could not find `UMLS_API_KEY` in environment variables.'' (rxnorm_world ''04-Mar-2024'')) \<and>
   rxnorm_get_latest [] (\<lambda>w. (Inl FileNotFoundError, w)) False False (rxnorm_world ''04-Mar-2024'') =
     (Inl RemoteDataError,
      log_msg ERROR ''Could not find `UMLS_API_KEY` in environment variables.''
        (rxnorm_world ''04-Mar-2024''\<lparr>net := [rxnorm_version_url]\<rparr>))"
proof -
  let ?w = "rxnorm_world ''04-Mar-2024''"
  have k: "map_of (environ ?w) ''UMLS_API_KEY'' = None"
    by (simp add: rxnorm_world_def world0_def)
  have v: "fst (rxnorm_get_latest_version [] ?w) = Inr ''20240304''"
    using rxnorm_world_version [OF strptime_4_Mar_2024, of "[]"] by (simp only: strftime_2024)
  have d: "False \<or> \<not> exists_file (DataFile (''rxnorm_'' @ ''20240304'' @ ''.RRF'')) ?w"
    by (simp add: exists_file_def rxnorm_world_def world0_def)
  have n: "net ?w = []" by (simp add: rxnorm_world_response)
  note main = rxnorm_download_data_needs_api_key
  from main [THEN conjunct1, rule_format, OF k]
  have a: "rxnorm_download_data [] ''20240304'' (DataFile ''rxnorm_20240304.RRF'') ?w =
     (Inl RemoteDataError,
      log_msg ERROR ''Could not find `UMLS_API_KEY` in environment variables.'' ?w)" .
  from main [THEN conjunct2, rule_format, OF k v d, of "\<lambda>w. (Inl FileNotFoundError, w)"]
  have b: "rxnorm_get_latest [] (\<lambda>w. (Inl FileNotFoundError, w)) False False ?w =
     (Inl RemoteDataError,
      log_msg ERROR ''Could not find `UMLS_API_KEY` in environment variables.''
        (?w\<lparr>net := [rxnorm_version_url]\<rparr>))" by (simp add: n)
  from k a b show ?thesis by (intro conjI)
qed

end
